theory Spec2Isabelle
  imports
    Main
    "HOL-Library.Sublist"
    "HOL-Library.List_Lexorder"
    "HOL-Library.Char_ord"
begin

section \<open>Strings\<close>

text \<open>
  A JavaScript string is a sequence of UTF-16 code units. The model keeps the code units
  below 256 (the Latin-1 range): a \<^typ>\<open>char\<close> is one code unit, a \<^typ>\<open>string\<close> a
  sequence of them. Every keyword, marker and pattern of the program is ASCII. Code units
  from 256 on are outside the model.
\<close>

text \<open>\<^verbatim>\<open>String.prototype.includes\<close>: the argument occurs as a contiguous substring.\<close>

fun str_includes :: "string \<Rightarrow> string \<Rightarrow> bool" where
  "str_includes [] sub = (sub = [])"
| "str_includes (c # cs) sub = (prefix sub (c # cs) \<or> str_includes cs sub)"

definition str_startsWith :: "string \<Rightarrow> string \<Rightarrow> bool" where
  "str_startsWith s p = prefix p s"

definition str_endsWith :: "string \<Rightarrow> string \<Rightarrow> bool" where
  "str_endsWith s p = suffix p s"

text \<open>
  \<^verbatim>\<open>String.prototype.toLowerCase\<close> on the Latin-1 range: the letters A-Z (code units
  65 to 90), and the accented capitals U+00C0 to U+00DE without the multiplication sign
  U+00D7, move up by 32; every other code unit stays. Moving up by 32 sets bit 5. The
  capitals are the code units with bit 6 set and bit 5 clear whose low five bits are, with
  bit 7 clear, between 1 and 26, and with bit 7 set, neither 23 nor 31 (lemma
  \<open>lowerChar_code_unit\<close> states this on the numbers).
\<close>

fun lowerChar :: "char \<Rightarrow> char" where
  "lowerChar (Char b0 b1 b2 b3 b4 b5 b6 b7) =
     (if b6 \<and> \<not> b5 \<and>
         (if b7 then \<not> (b0 \<and> b1 \<and> b2 \<and> b4)
          else (b0 \<or> b1 \<or> b2 \<or> b3 \<or> b4) \<and> \<not> (b3 \<and> b4 \<and> (b2 \<or> (b0 \<and> b1))))
      then Char b0 b1 b2 b3 b4 True b6 b7
      else Char b0 b1 b2 b3 b4 b5 b6 b7)"

definition toLowerCase :: "string \<Rightarrow> string" where
  "toLowerCase s = map lowerChar s"

text \<open>
  The white space and line terminators of ECMAScript (what \<^verbatim>\<open>trim\<close> strips and
  \<^verbatim>\<open>\s\<close> matches) in the Latin-1 range: tab, line feed, vertical tab, form feed,
  carriage return, space and the no-break space U+00A0.
\<close>

definition isSpace :: "char \<Rightarrow> bool" where
  "isSpace c = (c \<in> set [CHR 0x09, CHR 0x0A, CHR 0x0B, CHR 0x0C, CHR 0x0D, CHR 0x20, CHR 0xA0])"

definition trim :: "string \<Rightarrow> string" where
  "trim s = rev (dropWhile isSpace (rev (dropWhile isSpace s)))"

text \<open>
  \<^verbatim>\<open>Array.prototype.slice(start, end)\<close> on integer arguments: a negative index counts
  from the end, and both are clamped to the array.
\<close>

definition slice :: "'a list \<Rightarrow> int \<Rightarrow> int \<Rightarrow> 'a list" where
  "slice xs start end' =
     (let len = int (length xs);
          k = (if start < 0 then max (len + start) 0 else min start len);
          final = (if end' < 0 then max (len + end') 0 else min end' len)
      in take (nat (final - k)) (drop (nat k) xs))"

section \<open>Data model (types.ts)\<close>

record ComponentMetadata =
  name :: string
  category :: string
  description :: string
  sourceUrl :: string
  demoUrl :: "string option"
  tags :: "string list"
  code :: string
  dependencies :: "string list option"
  path :: "string option"
  size_bytes :: "nat option"

record ComponentSummary =
  summary_name :: string
  summary_category :: string
  summary_description :: string
  summary_tags :: "string list"
  summary_sourceUrl :: string

record SearchResult =
  component :: ComponentMetadata
  score :: int
  matchedFields :: "string list"

section \<open>The list and search tools (server.ts)\<close>

definition formatComponentSummary :: "ComponentMetadata \<Rightarrow> ComponentSummary" where
  "formatComponentSummary c =
     \<lparr> summary_name = name c, summary_category = category c,
       summary_description = description c, summary_tags = tags c,
       summary_sourceUrl = sourceUrl c \<rparr>"

text \<open>
  \<^verbatim>\<open>list_components\<close>, on the component list that \<^verbatim>\<open>loadComponents\<close> returned. Both
  parameters are optional; the conditions \<^verbatim>\<open>if (params.category)\<close> and
  \<^verbatim>\<open>if (params.limit)\<close> test truthiness, so the empty string and the number 0 count as
  absent. The result is the pair of \<^verbatim>\<open>total\<close> and \<^verbatim>\<open>components\<close> of the JSON reply.
  The limit is an integer here (the schema admits any number).
\<close>

definition list_components ::
  "ComponentMetadata list \<Rightarrow> string option \<Rightarrow> int option \<Rightarrow> nat \<times> ComponentSummary list" where
  "list_components components category_param limit_param =
     (let filtered = components;
          filtered = (case category_param of
                        None \<Rightarrow> filtered
                      | Some cat \<Rightarrow>
                          if cat = [] then filtered
                          else filter (\<lambda>c. toLowerCase (category c) = toLowerCase cat) components);
          filtered = (case limit_param of
                        None \<Rightarrow> filtered
                      | Some l \<Rightarrow> if l = 0 then filtered else slice filtered 0 l);
          summaries = map formatComponentSummary filtered
      in (length filtered, summaries))"

text \<open>
  The tag loop of \<^verbatim>\<open>search_components\<close>: the first tag that contains the query adds 20
  and the field name, and the \<^verbatim>\<open>break\<close> ends the loop.
\<close>

fun tagsLoop :: "string \<Rightarrow> string list \<Rightarrow> int \<times> string list \<Rightarrow> int \<times> string list" where
  "tagsLoop query [] acc = acc"
| "tagsLoop query (tag # rest) (sc, mf) =
     (if str_includes (toLowerCase tag) query then (sc + 20, mf @ [''tags''])
      else tagsLoop query rest (sc, mf))"

text \<open>The body of the loop over the components, up to the test \<^verbatim>\<open>score > 0\<close>.\<close>

definition scoreComponent :: "string \<Rightarrow> ComponentMetadata \<Rightarrow> SearchResult" where
  "scoreComponent query c =
     (let acc = (0, []);
          acc = (if str_includes (toLowerCase (name c)) query
                 then (fst acc + 50, snd acc @ [''name'']) else acc);
          acc = (if str_includes (toLowerCase (category c)) query
                 then (fst acc + 30, snd acc @ [''category'']) else acc);
          acc = tagsLoop query (tags c) acc;
          acc = (if str_includes (toLowerCase (description c)) query
                 then (fst acc + 10, snd acc @ [''description'']) else acc);
          acc = (if toLowerCase (name c) = query then (fst acc + 30, snd acc) else acc)
      in \<lparr> component = c, score = fst acc, matchedFields = snd acc \<rparr>)"

fun searchLoop :: "string \<Rightarrow> ComponentMetadata list \<Rightarrow> SearchResult list \<Rightarrow> SearchResult list" where
  "searchLoop query [] results = results"
| "searchLoop query (c # cs) results =
     (let r = scoreComponent query c
      in searchLoop query cs (if score r > 0 then results @ [r] else results))"

text \<open>
  \<^verbatim>\<open>results.sort((a, b) => b.score - a.score)\<close>: \<^verbatim>\<open>Array.prototype.sort\<close> is a stable
  sort (ECMAScript 2019), here by descending score. The stable insertion sort of the
  library on the negated score is that function.
\<close>

definition sortByScore :: "SearchResult list \<Rightarrow> SearchResult list" where
  "sortByScore results = sort_key (\<lambda>r. - score r) results"

datatype search_reply =
  PleaseProvideQuery
| TopResults "SearchResult list"

text \<open>
  \<^verbatim>\<open>search_components\<close>: the reply is the prompt for a query that is empty after
  normalisation, and otherwise the list handed to \<^verbatim>\<open>formatSearchResults\<close>. The limit is
  an integer here, \<^verbatim>\<open>params.limit ?? 10\<close> when absent.
\<close>

definition search_components ::
  "ComponentMetadata list \<Rightarrow> string \<Rightarrow> int option \<Rightarrow> search_reply" where
  "search_components components query_param limit_param =
     (let query = trim (toLowerCase query_param);
          limit = (case limit_param of None \<Rightarrow> 10 | Some l \<Rightarrow> l)
      in if query = [] then PleaseProvideQuery
         else let results = searchLoop query components [];
                  results = sortByScore results;
                  topResults = slice results 0 limit
              in TopResults topResults)"


subsection \<open>Notions used to state the search properties\<close>

text \<open>The weight that the search loop adds for each field name it records.\<close>

definition fieldWeight :: "string \<Rightarrow> int" where
  "fieldWeight f =
     (if f = ''name'' then 50 else if f = ''category'' then 30
      else if f = ''tags'' then 20 else if f = ''description'' then 10 else 0)"

text \<open>A record that matches a query on its description and on no other field.\<close>

definition matchesOnlyDescription :: "string \<Rightarrow> ComponentMetadata \<Rightarrow> bool" where
  "matchesOnlyDescription q c =
     (str_includes (toLowerCase (description c)) q \<and>
      \<not> str_includes (toLowerCase (name c)) q \<and>
      \<not> str_includes (toLowerCase (category c)) q \<and>
      \<not> (\<exists>t \<in> set (tags c). str_includes (toLowerCase t) q))"

text \<open>Two records of a small catalogue, used to run the operations on concrete input.\<close>

definition exampleButton :: ComponentMetadata where
  "exampleButton =
     \<lparr> name = ''Button'', category = ''Buttons'', description = ''A clickable control'',
       sourceUrl = ''https://github.com/Ashutoshx7/VengeanceUI/blob/main/Button.tsx'',
       demoUrl = None, tags = [''interactive'', ''tailwind''], code = ''onClick className'',
       dependencies = Some [''react''], path = Some ''Button.tsx'', size_bytes = Some 19 \<rparr>"

definition exampleTooltip :: ComponentMetadata where
  "exampleTooltip =
     \<lparr> name = ''Tooltip'', category = ''Overlays'', description = ''Hint shown next to a button'',
       sourceUrl = ''https://github.com/Ashutoshx7/VengeanceUI/blob/main/Tooltip.tsx'',
       demoUrl = None, tags = [''animated''], code = ''transition'',
       dependencies = Some [], path = Some ''Tooltip.tsx'', size_bytes = Some 10 \<rparr>"

text \<open>
  The ranking as the specification words it, for a normalised query and a limit: drop the
  records that score 0, sort by descending score keeping the catalogue order among equal
  scores, keep the first \<open>limit\<close> results.
\<close>

definition rankedSearch :: "ComponentMetadata list \<Rightarrow> string \<Rightarrow> int \<Rightarrow> SearchResult list" where
  "rankedSearch components q limit =
     take (nat limit)
       (sort_key (\<lambda>r. - score r) (filter (\<lambda>r. 0 < score r) (map (scoreComponent q) components)))"

section \<open>Regular expressions of the loader, as backtracking matchers\<close>

text \<open>
  The loader uses five regular expressions. Each is modelled by a function that, for the
  input starting at one position, lists the ways in which the expression matches there,
  in the order in which the backtracking matcher of ECMAScript tries them. A way is
  given by the input that remains after the match (and the group that was captured); the
  first element of the list is the match that \<^verbatim>\<open>match\<close> and \<^verbatim>\<open>matchAll\<close> report at
  that position. The pieces below are the quantifiers the five expressions are built
  from.
\<close>

text \<open>A literal: the rest of the input after it.\<close>

definition lit :: "string \<Rightarrow> string \<Rightarrow> string list" where
  "lit p s = (if prefix p s then [drop (length p) s] else [])"

text \<open>
  \<^verbatim>\<open>X*\<close> for a character class \<open>X\<close>, greedy: the rests after the longest run first,
  down to the input itself.
\<close>

fun greedyStar :: "(char \<Rightarrow> bool) \<Rightarrow> string \<Rightarrow> string list" where
  "greedyStar P [] = [[]]"
| "greedyStar P (c # cs) = (if P c then greedyStar P cs else []) @ [c # cs]"

text \<open>\<^verbatim>\<open>X+\<close>, greedy: one character of the class, then \<^verbatim>\<open>X*\<close>.\<close>

fun greedyPlus :: "(char \<Rightarrow> bool) \<Rightarrow> string \<Rightarrow> string list" where
  "greedyPlus P [] = []"
| "greedyPlus P (c # cs) = (if P c then greedyStar P cs else [])"

text \<open>\<^verbatim>\<open>X*?\<close>, lazy: the input itself first, then the rests after longer and longer runs.\<close>

fun lazyStar :: "(char \<Rightarrow> bool) \<Rightarrow> string \<Rightarrow> string list" where
  "lazyStar P [] = [[]]"
| "lazyStar P (c # cs) = (c # cs) # (if P c then lazyStar P cs else [])"

text \<open>\<^verbatim>\<open>X?\<close>, greedy: with the character first, then without.\<close>

fun greedyOpt :: "(char \<Rightarrow> bool) \<Rightarrow> string \<Rightarrow> string list" where
  "greedyOpt P [] = [[]]"
| "greedyOpt P (c # cs) = (if P c then [cs] else []) @ [c # cs]"

text \<open>One character of a class.\<close>

fun oneChar :: "(char \<Rightarrow> bool) \<Rightarrow> string \<Rightarrow> string list" where
  "oneChar P [] = []"
| "oneChar P (c # cs) = (if P c then [cs] else [])"

text \<open>
  Sequencing: every way of the first piece, continued by every way of the second, the
  ways of the first piece in their order.
\<close>

definition andThen :: "'a list \<Rightarrow> ('a \<Rightarrow> 'b list) \<Rightarrow> 'b list" where
  "andThen xs f = concat (map f xs)"

text \<open>What a match consumed: the input without the rest.\<close>

definition consumed :: "string \<Rightarrow> string \<Rightarrow> string" where
  "consumed s rest = take (length s - length rest) s"

text \<open>
  \<^verbatim>\<open>String.prototype.match\<close> with an expression that has no \<^verbatim>\<open>g\<close> flag: the first
  way at the leftmost position that has one.
\<close>

fun regexSearch :: "(string \<Rightarrow> 'a list) \<Rightarrow> string \<Rightarrow> 'a option" where
  "regexSearch m [] = (case m [] of [] \<Rightarrow> None | r # _ \<Rightarrow> Some r)"
| "regexSearch m (c # cs) = (case m (c # cs) of [] \<Rightarrow> regexSearch m cs | r # _ \<Rightarrow> Some r)"

text \<open>
  \<^verbatim>\<open>String.prototype.matchAll\<close> with the \<^verbatim>\<open>g\<close> flag: the captured groups of the
  successive matches. After a match the search goes on where the match ended; the first
  argument counts the characters still to skip to get there. A match that consumed
  nothing moves on by one character.
\<close>

fun matchAllFrom :: "(string \<Rightarrow> (string \<times> string) list) \<Rightarrow> nat \<Rightarrow> string \<Rightarrow> string list" where
  "matchAllFrom m k [] =
     (if k = 0 then (case m [] of [] \<Rightarrow> [] | (cap, rest) # _ \<Rightarrow> [cap]) else [])"
| "matchAllFrom m (Suc k) (c # cs) = matchAllFrom m k cs"
| "matchAllFrom m 0 (c # cs) =
     (case m (c # cs) of
        [] \<Rightarrow> matchAllFrom m 0 cs
      | (cap, rest) # _ \<Rightarrow> cap # matchAllFrom m (length (c # cs) - length rest - 1) cs)"

definition matchAll :: "(string \<Rightarrow> (string \<times> string) list) \<Rightarrow> string \<Rightarrow> string list" where
  "matchAll m s = matchAllFrom m 0 s"

text \<open>
  The character classes. \<^verbatim>\<open>.\<close> is every character but a line terminator (line feed
  and carriage return in the Latin-1 range); \<^verbatim>\<open>\w\<close> is a letter of A-Z or a-z, a
  digit or the underscore.
\<close>

definition isLineTerminator :: "char \<Rightarrow> bool" where
  "isLineTerminator c = (c = CHR 0x0A \<or> c = CHR 0x0D)"

definition isWordChar :: "char \<Rightarrow> bool" where
  "isWordChar c =
     (c \<in> set ''abcdefghijklmnopqrstuvwxyzABCDEFGHIJKLMNOPQRSTUVWXYZ0123456789_'')"

definition isQuote :: "char \<Rightarrow> bool" where
  "isQuote c = (c = CHR 0x27 \<or> c = CHR 0x22)"

text \<open>\<^verbatim>\<open>[\w/-]\<close>, the characters of a captured module specifier.\<close>

definition isSpecifierChar :: "char \<Rightarrow> bool" where
  "isSpecifierChar c = (isWordChar c \<or> c = CHR ''/'' \<or> c = CHR ''-'')"

text \<open>
  \<^verbatim>\<open>([^*]|\*[^/])*\<close>, the body of a documentation comment: greedy, each round one
  character that is not a star, or a star and one character that is not a slash.
\<close>

fun jsdocBody :: "string \<Rightarrow> string list" where
  "jsdocBody [] = [[]]"
| "jsdocBody [c] = (if c \<noteq> CHR ''*'' then jsdocBody [] else []) @ [[c]]"
| "jsdocBody (c # d # ds) =
     (if c \<noteq> CHR ''*'' then jsdocBody (d # ds)
      else if d \<noteq> CHR ''/'' then jsdocBody ds else []) @ [c # d # ds]"

text \<open>\<^verbatim>\<open>/\/\*\*\s*\n([^*]|\*[^/])*\*\//\<close>: the rests after a documentation comment.\<close>

definition matchJsdoc :: "string \<Rightarrow> string list" where
  "matchJsdoc s =
     andThen (lit ''/**'' s) (\<lambda>r1.
     andThen (greedyStar isSpace r1) (\<lambda>r2.
     andThen (lit [CHR 0x0A] r2) (\<lambda>r3.
     andThen (jsdocBody r3) (\<lambda>r4.
     lit ''*/'' r4))))"

text \<open>\<^verbatim>\<open>/\*\s*([^@\n]+)/\<close>: the captured groups.\<close>

definition matchDescriptionLine :: "string \<Rightarrow> string list" where
  "matchDescriptionLine s =
     andThen (lit ''*'' s) (\<lambda>r1.
     andThen (greedyStar isSpace r1) (\<lambda>r2.
     map (consumed r2) (greedyPlus (\<lambda>c. c \<noteq> CHR ''@'' \<and> c \<noteq> CHR 0x0A) r2)))"

text \<open>\<^verbatim>\<open>/\/\/\s*(.+)/\<close>: the captured groups.\<close>

definition matchLineComment :: "string \<Rightarrow> string list" where
  "matchLineComment s =
     andThen (lit ''//'' s) (\<lambda>r1.
     andThen (greedyStar isSpace r1) (\<lambda>r2.
     map (consumed r2) (greedyPlus (\<lambda>c. \<not> isLineTerminator c) r2)))"

text \<open>
  \<^verbatim>\<open>['"](@?[\w/-]+)['"]\<close>, the quoted specifier that ends both dependency
  expressions: the captured group and the rest.
\<close>

definition matchQuotedSpecifier :: "string \<Rightarrow> (string \<times> string) list" where
  "matchQuotedSpecifier s =
     andThen (oneChar isQuote s) (\<lambda>r1.
     andThen (greedyOpt (\<lambda>c. c = CHR ''@'') r1) (\<lambda>r2.
     andThen (greedyPlus isSpecifierChar r2) (\<lambda>r3.
     map (\<lambda>r4. (consumed r1 r3, r4)) (oneChar isQuote r3))))"

text \<open>\<^verbatim>\<open>/import\s+.*?\s+from\s+['"](@?[\w/-]+)['"]/g\<close>.\<close>

definition matchImport :: "string \<Rightarrow> (string \<times> string) list" where
  "matchImport s =
     andThen (lit ''import'' s) (\<lambda>r1.
     andThen (greedyPlus isSpace r1) (\<lambda>r2.
     andThen (lazyStar (\<lambda>c. \<not> isLineTerminator c) r2) (\<lambda>r3.
     andThen (greedyPlus isSpace r3) (\<lambda>r4.
     andThen (lit ''from'' r4) (\<lambda>r5.
     andThen (greedyPlus isSpace r5) (\<lambda>r6.
     matchQuotedSpecifier r6))))))"

text \<open>\<^verbatim>\<open>/require\(['"](@?[\w/-]+)['"]\)/g\<close>.\<close>

definition matchRequire :: "string \<Rightarrow> (string \<times> string) list" where
  "matchRequire s =
     andThen (lit ''require('' s) (\<lambda>r1.
     andThen (matchQuotedSpecifier r1) (\<lambda>(cap, r2).
     map (\<lambda>r3. (cap, r3)) (lit '')'' r2)))"

section \<open>The metadata extractor (componentLoader.ts)\<close>

text \<open>
  A JavaScript \<^verbatim>\<open>Set\<close> of strings, as the list of its elements in insertion order;
  \<^verbatim>\<open>add\<close> appends an element that is not there yet, and \<^verbatim>\<open>Array.from\<close> is the list.
\<close>

definition setAdd :: "string \<Rightarrow> string list \<Rightarrow> string list" where
  "setAdd x xs = (if x \<in> set xs then xs else xs @ [x])"

text \<open>
  \<^verbatim>\<open>extractComponentName\<close>: \<^verbatim>\<open>filename.replace(/\.(tsx?|jsx?)$/, "")\<close> removes one
  of the four extensions from the end of the name.
\<close>

definition extractComponentName :: "string \<Rightarrow> string" where
  "extractComponentName filename =
     (if str_endsWith filename ''.tsx'' \<or> str_endsWith filename ''.jsx''
      then take (length filename - 4) filename
      else if str_endsWith filename ''.ts'' \<or> str_endsWith filename ''.js''
      then take (length filename - 3) filename
      else filename)"

text \<open>
  The object literal \<^verbatim>\<open>categoryMap\<close>. \<^verbatim>\<open>Object.entries\<close> lists its keys in the order
  in which the literal writes them (none of them is an array index).
\<close>

definition categoryMap :: "(string \<times> string) list" where
  "categoryMap =
    [(''button'', ''Buttons''),
     (''btn'', ''Buttons''),
     (''card'', ''Cards''),
     (''input'', ''Forms''),
     (''form'', ''Forms''),
     (''select'', ''Forms''),
     (''checkbox'', ''Forms''),
     (''radio'', ''Forms''),
     (''toggle'', ''Forms''),
     (''switch'', ''Forms''),
     (''nav'', ''Navigation''),
     (''header'', ''Navigation''),
     (''footer'', ''Navigation''),
     (''sidebar'', ''Navigation''),
     (''menu'', ''Navigation''),
     (''modal'', ''Overlays''),
     (''dialog'', ''Overlays''),
     (''popover'', ''Overlays''),
     (''tooltip'', ''Overlays''),
     (''dropdown'', ''Overlays''),
     (''sheet'', ''Overlays''),
     (''drawer'', ''Overlays''),
     (''badge'', ''Data Display''),
     (''avatar'', ''Data Display''),
     (''list'', ''Data Display''),
     (''table'', ''Data Display''),
     (''tabs'', ''Navigation''),
     (''accordion'', ''Data Display''),
     (''carousel'', ''Data Display''),
     (''slider'', ''Forms''),
     (''progress'', ''Feedback''),
     (''spinner'', ''Feedback''),
     (''loader'', ''Feedback''),
     (''skeleton'', ''Feedback''),
     (''alert'', ''Feedback''),
     (''toast'', ''Feedback''),
     (''notification'', ''Feedback''),
     (''layout'', ''Layout''),
     (''container'', ''Layout''),
     (''grid'', ''Layout''),
     (''flex'', ''Layout''),
     (''section'', ''Layout''),
     (''divider'', ''Layout''),
     (''separator'', ''Layout''),
     (''space'', ''Layout''),
     (''typography'', ''Typography''),
     (''text'', ''Typography''),
     (''heading'', ''Typography''),
     (''title'', ''Typography''),
     (''label'', ''Typography''),
     (''icon'', ''Icons''),
     (''image'', ''Media''),
     (''video'', ''Media''),
     (''animation'', ''Animation''),
     (''transition'', ''Animation''),
     (''effect'', ''Animation''),
     (''gradient'', ''Styles''),
     (''theme'', ''Styles''),
     (''chart'', ''Data Visualization''),
     (''graph'', ''Data Visualization'')]"

text \<open>
  The loop \<^verbatim>\<open>for (const [key, category] of Object.entries(categoryMap))\<close>: the category
  of the first key that the lower-cased name contains, if there is one.
\<close>

fun categoryLoop :: "(string \<times> string) list \<Rightarrow> string \<Rightarrow> string option" where
  "categoryLoop [] nameLower = None"
| "categoryLoop ((key, cat) # entries) nameLower =
     (if str_includes nameLower key then Some cat else categoryLoop entries nameLower)"

definition extractCategory :: "string \<Rightarrow> string \<Rightarrow> string" where
  "extractCategory componentName src =
     (let nameLower = toLowerCase componentName
      in case categoryLoop categoryMap nameLower of
           Some cat \<Rightarrow> cat
         | None \<Rightarrow>
             if str_includes src ''Button'' \<or> str_includes src ''btn'' then ''Buttons''
             else if str_includes src ''Card'' then ''Cards''
             else if str_includes src ''Input'' \<or> str_includes src ''Form'' then ''Forms''
             else if str_includes src ''Modal'' \<or> str_includes src ''Dialog'' then ''Overlays''
             else if str_includes src ''Nav'' then ''Navigation''
             else ''Components'')"

definition extractDescription :: "string \<Rightarrow> string \<Rightarrow> string" where
  "extractDescription src componentName =
     (let fromComment =
            (case regexSearch matchLineComment src of
               Some cap \<Rightarrow> trim cap
             | None \<Rightarrow> componentName @ '' component from VengeanceUI'')
      in case regexSearch (\<lambda>s. map (consumed s) (matchJsdoc s)) src of
           Some comment \<Rightarrow>
             (case regexSearch matchDescriptionLine comment of
                Some cap \<Rightarrow> trim cap
              | None \<Rightarrow> fromComment)
         | None \<Rightarrow> fromComment)"

text \<open>\<^verbatim>\<open>if (condition) tags.add(tag)\<close>, one statement of \<^verbatim>\<open>extractTags\<close>.\<close>

definition addIf :: "bool \<Rightarrow> string \<Rightarrow> string list \<Rightarrow> string list" where
  "addIf condition tag tgs = (if condition then setAdd tag tgs else tgs)"

definition extractTags :: "string \<Rightarrow> string list" where
  "extractTags src =
     (let tgs = [];
          tgs = addIf (str_includes src ''@keyframes'' \<or> str_includes src ''animation'')
                  ''animation'' tgs;
          tgs = addIf (str_includes src ''transition'' \<or> str_includes src ''transform'')
                  ''animated'' tgs;
          tgs = addIf (str_includes src ''onClick'' \<or> str_includes src ''onChange''
                         \<or> str_includes src ''onHover'')
                  ''interactive'' tgs;
          tgs = addIf (str_includes src ''gradient'') ''gradient'' tgs;
          tgs = addIf (str_includes src ''Tailwind'' \<or> str_includes src ''className'')
                  ''tailwind'' tgs;
          tgs = addIf (str_includes src ''styled'') ''styled-components'' tgs;
          tgs = addIf (str_includes src ''flex'' \<or> str_includes src ''grid'') ''layout'' tgs;
          tgs = addIf (str_includes src ''responsive'' \<or> str_includes src ''md:''
                         \<or> str_includes src ''lg:'')
                  ''responsive'' tgs;
          tgs = addIf (str_includes src ''useRef'' \<or> str_includes src ''useEffect''
                         \<or> str_includes src ''useState'')
                  ''hooks'' tgs;
          tgs = addIf (str_includes src ''forwardRef'') ''composable'' tgs;
          tgs = addIf (str_includes src ''children'') ''compound'' tgs
      in tgs)"

text \<open>
  The two loops of \<^verbatim>\<open>extractDependencies\<close> have the same body: a captured specifier
  that starts neither with a dot nor with \<^verbatim>\<open>node:\<close> is added to the set.
\<close>

fun addDependencies :: "string list \<Rightarrow> string list \<Rightarrow> string list" where
  "addDependencies [] deps = deps"
| "addDependencies (dependency # rest) deps =
     addDependencies rest
       (if \<not> str_startsWith dependency ''.'' \<and> \<not> str_startsWith dependency ''node:''
        then setAdd dependency deps else deps)"

definition extractDependencies :: "string \<Rightarrow> string list" where
  "extractDependencies src =
     (let deps = [];
          importMatches = matchAll matchImport src;
          deps = addDependencies importMatches deps;
          requireMatches = matchAll matchRequire src;
          deps = addDependencies requireMatches deps
      in deps)"

subsection \<open>The tag predicates as a table\<close>

text \<open>
  The statements of \<^verbatim>\<open>extractTags\<close> read as a table, in their order: the markers of
  which one must occur in the content, and the tag that is added then.
\<close>

definition tagPredicates :: "(string list \<times> string) list" where
  "tagPredicates =
    [([''@keyframes'', ''animation''], ''animation''),
     ([''transition'', ''transform''], ''animated''),
     ([''onClick'', ''onChange'', ''onHover''], ''interactive''),
     ([''gradient''], ''gradient''),
     ([''Tailwind'', ''className''], ''tailwind''),
     ([''styled''], ''styled-components''),
     ([''flex'', ''grid''], ''layout''),
     ([''responsive'', ''md:'', ''lg:''], ''responsive''),
     ([''useRef'', ''useEffect'', ''useState''], ''hooks''),
     ([''forwardRef''], ''composable''),
     ([''children''], ''compound'')]"

text \<open>The test of both dependency loops on a captured specifier.\<close>

definition keptSpecifier :: "string \<Rightarrow> bool" where
  "keptSpecifier d = (\<not> str_startsWith d ''.'' \<and> \<not> str_startsWith d ''node:'')"

text \<open>A list without its repetitions, each element where it occurs first.\<close>

definition firstOccurrences :: "'a list \<Rightarrow> 'a list" where
  "firstOccurrences xs = rev (remdups (rev xs))"

text \<open>Contents used to run the extractor on concrete input.\<close>

definition importsReactAndLocal :: string where
  "importsReactAndLocal =
     ''import React from \"react\";\<newline>import { cn } from \"./local-util\";''"

definition importsLocalAndReact :: string where
  "importsLocalAndReact =
     ''import { cn } from \"./local-util\";\<newline>import React from \"react\";''"

definition importsReactTwice :: string where
  "importsReactTwice =
     ''import React from \"react\";\<newline>import { useState } from 'react';\<newline>const r = require(\"react\");''"

definition requiresScopedAndBuiltin :: string where
  "requiresScopedAndBuiltin =
     ''const slot = require('@radix-ui/react-slot');\<newline>const fs = require(\"node:fs\");\<newline>import util from \"../util\";''"

text \<open>
  Declarations of these shapes are not captured: an import whose bindings run over several
  lines, a package with a dot in its name, an import for its side effect alone. The last
  content names two modules built into Node without the \<^verbatim>\<open>node:\<close> prefix.
\<close>

definition multilineReactAndLocal :: string where
  "multilineReactAndLocal =
     ''import {\<newline>  useState,\<newline>  useEffect\<newline>} from \"react\";\<newline>import { cn } from \"./local-util\";''"

definition importsDottedPackage :: string where
  "importsDottedPackage = ''import debounce from \"lodash.debounce\";''"

definition importsForSideEffect :: string where
  "importsForSideEffect = ''import \"reflect-metadata\";''"

definition importsNodeBuiltins :: string where
  "importsNodeBuiltins = ''import fs from \"fs\";\<newline>const path = require(\"path\");''"

definition importsReactAndClsx :: string where
  "importsReactAndClsx =
     ''import React from \"react\";\<newline>import clsx from \"clsx\";''"

definition documentedButton :: string where
  "documentedButton =
     ''/**\<newline> * A fancy button\<newline> * @param props the props\<newline> */\<newline>export const FancyButton = () => null;''"

subsection \<open>The category rules as the specification lists them\<close>

text \<open>
  The specification gives the keyword rules as groups, in this order, and asks for the
  first substring match on the lower-cased name. The groups hold the keys of
  \<open>categoryMap\<close>, each with its category, in another order: the specification has
  \<open>slider\<close> with the other form keywords and \<open>tabs\<close> with the other navigation keywords.
\<close>

definition specCategoryRules :: "(string list \<times> string) list" where
  "specCategoryRules =
    [([''button'', ''btn''], ''Buttons''),
     ([''card''], ''Cards''),
     ([''input'', ''form'', ''select'', ''checkbox'', ''radio'', ''toggle'', ''switch'',
       ''slider''], ''Forms''),
     ([''nav'', ''header'', ''footer'', ''sidebar'', ''menu'', ''tabs''], ''Navigation''),
     ([''modal'', ''dialog'', ''popover'', ''tooltip'', ''dropdown'', ''sheet'', ''drawer''],
      ''Overlays''),
     ([''badge'', ''avatar'', ''list'', ''table'', ''accordion'', ''carousel''],
      ''Data Display''),
     ([''progress'', ''spinner'', ''loader'', ''skeleton'', ''alert'', ''toast'',
       ''notification''], ''Feedback''),
     ([''layout'', ''container'', ''grid'', ''flex'', ''section'', ''divider'', ''separator'',
       ''space''], ''Layout''),
     ([''typography'', ''text'', ''heading'', ''title'', ''label''], ''Typography''),
     ([''icon''], ''Icons''),
     ([''image'', ''video''], ''Media''),
     ([''animation'', ''transition'', ''effect''], ''Animation''),
     ([''gradient'', ''theme''], ''Styles''),
     ([''chart'', ''graph''], ''Data Visualization'')]"

definition specCategoryTable :: "(string \<times> string) list" where
  "specCategoryTable = concat (map (\<lambda>(keys, cat). map (\<lambda>k. (k, cat)) keys) specCategoryRules)"

text \<open>
  The structural markers of the fallback, in the priority order of the specification.
  The specification names them only by kind; the marker strings are those that the source
  looks for in the content.
\<close>

definition specContentMarkers :: "(string list \<times> string) list" where
  "specContentMarkers =
    [([''Button'', ''btn''], ''Buttons''),
     ([''Card''], ''Cards''),
     ([''Input'', ''Form''], ''Forms''),
     ([''Modal'', ''Dialog''], ''Overlays''),
     ([''Nav''], ''Navigation'')]"

text \<open>The reference definition of the specification: two rule tables and a default.\<close>

definition specExtractCategory :: "string \<Rightarrow> string \<Rightarrow> string" where
  "specExtractCategory componentName src =
     (case find (\<lambda>(key, cat). str_includes (toLowerCase componentName) key) specCategoryTable of
        Some (key, cat) \<Rightarrow> cat
      | None \<Rightarrow>
          (case find (\<lambda>(markers, cat). \<exists>m \<in> set markers. str_includes src m) specContentMarkers of
             Some (markers, cat) \<Rightarrow> cat
           | None \<Rightarrow> ''Components''))"

text \<open>
  The lower-cased names on which the order of the source and the order of the
  specification pick different rules. No keyword ahead of both orders' difference
  (\<open>button\<close> to \<open>switch\<close>) occurs in the name, and either the name contains \<open>slider\<close>
  together with a keyword that the source tries before it (\<open>nav\<close> to \<open>carousel\<close>), or it
  contains \<open>tabs\<close> but neither \<open>slider\<close> nor one of \<open>nav\<close> to \<open>menu\<close>, together with a
  keyword that the source tries before \<open>tabs\<close> (\<open>modal\<close> to \<open>table\<close>).
\<close>

definition keywordOrderMatters :: "string \<Rightarrow> bool" where
  "keywordOrderMatters nameLower =
     (let has = (\<lambda>keys. \<exists>k \<in> set keys. str_includes nameLower k);
          early = [''button'', ''btn'', ''card'', ''input'', ''form'', ''select'', ''checkbox'',
                   ''radio'', ''toggle'', ''switch''];
          navigation = [''nav'', ''header'', ''footer'', ''sidebar'', ''menu''];
          beforeTabs = [''modal'', ''dialog'', ''popover'', ''tooltip'', ''dropdown'', ''sheet'',
                        ''drawer'', ''badge'', ''avatar'', ''list'', ''table''];
          afterTabs = [''accordion'', ''carousel'']
      in \<not> has early \<and>
         (if has [''slider'']
          then has navigation \<or> has beforeTabs \<or> has [''tabs''] \<or> has afterTabs
          else \<not> has navigation \<and> has [''tabs''] \<and> has beforeTabs))"

section \<open>The crawler (componentLoader.ts)\<close>

record GitHubContentItem =
  item_name :: string
  item_path :: string
  item_type :: string
  download_url :: "string option"
  html_url :: string
  item_size :: "nat option"

text \<open>
  The remote repository. An entry of a directory listing carries its item and what the
  two requests that the crawler can make for it are answered with: the listing of the
  item's path (asked for when the item is a directory) and the body behind its
  \<^verbatim>\<open>download_url\<close> (asked for when the item is a component file). \<open>None\<close> is a
  request that fails, whatever the reason. A repository is a finite tree, so a listing
  holds the entries of its subdirectories.
\<close>

datatype entry = Entry GitHubContentItem "entry list option" "string option"

text \<open>The requests that a crawl sends, in the order in which it sends them.\<close>

datatype request = ListDirectory string | Download string

datatype fetch_error = RequestFailed

text \<open>
  \<^verbatim>\<open>fetchComponentMetadata\<close>: \<open>Inr None\<close> is the result \<^verbatim>\<open>null\<close> for an item without a
  \<^verbatim>\<open>download_url\<close> (the test is for truthiness, so the empty string counts as none),
  \<open>Inl\<close> the exception of a failed download.
\<close>

definition fetchComponentMetadata ::
  "GitHubContentItem \<Rightarrow> string option \<Rightarrow> request list \<times> (fetch_error + ComponentMetadata option)" where
  "fetchComponentMetadata item body =
     (case download_url item of
        None \<Rightarrow> ([], Inr None)
      | Some url \<Rightarrow>
          if url = [] then ([], Inr None)
          else (case body of
                  None \<Rightarrow> ([Download url], Inl RequestFailed)
                | Some src \<Rightarrow>
                    let componentName = extractComponentName (item_name item)
                    in ([Download url],
                        Inr (Some \<lparr> name = componentName,
                                    category = extractCategory componentName src,
                                    description = extractDescription src componentName,
                                    sourceUrl = html_url item,
                                    demoUrl = None,
                                    tags = extractTags src,
                                    code = src,
                                    dependencies = Some (extractDependencies src),
                                    path = Some (item_path item),
                                    size_bytes = item_size item \<rparr>))))"

text \<open>The test on a file's name: a component file that is no test, story or private file.\<close>

definition isComponentFile :: "string \<Rightarrow> bool" where
  "isComponentFile fname =
     (str_endsWith fname ''.tsx'' \<or> str_endsWith fname ''.ts'' \<or>
      str_endsWith fname ''.jsx'' \<or> str_endsWith fname ''.js'')"

definition skippedFile :: "string \<Rightarrow> bool" where
  "skippedFile fname =
     (\<not> isComponentFile fname \<or> str_includes fname ''.test.'' \<or> str_includes fname ''.spec.'' \<or>
      str_includes fname ''.stories.'' \<or> str_startsWith fname ''_'')"

text \<open>
  \<^verbatim>\<open>fetchComponentsFromDirectory\<close>, given the answer to its listing request, and the
  loop over the listed items. A failed listing is the exception that the function
  throws. The loop catches the exception of a subdirectory (nothing is added for it) and
  of a component file (logged, nothing is added).
\<close>

fun fetchComponentsFromDirectory ::
    "string \<Rightarrow> entry list option \<Rightarrow> request list \<times> (fetch_error + ComponentMetadata list)"
  and itemsLoop :: "entry list \<Rightarrow> request list \<times> ComponentMetadata list" where
  "fetchComponentsFromDirectory dir None = ([ListDirectory dir], Inl RequestFailed)"
| "fetchComponentsFromDirectory dir (Some items) =
     (let (reqs, components) = itemsLoop items
      in (ListDirectory dir # reqs, Inr components))"
| "itemsLoop [] = ([], [])"
| "itemsLoop (Entry item listing body # rest) =
     (if item_type item = ''dir'' then
        (let (reqs, r) = fetchComponentsFromDirectory (item_path item) listing;
             subComponents = (case r of Inl e \<Rightarrow> [] | Inr cs \<Rightarrow> cs);
             (reqs', components) = itemsLoop rest
         in (reqs @ reqs', subComponents @ components))
      else if item_type item \<noteq> ''file'' then itemsLoop rest
      else if skippedFile (item_name item) then itemsLoop rest
      else
        (let (reqs, r) = fetchComponentMetadata item body;
             found = (case r of Inr (Some c) \<Rightarrow> [c] | _ \<Rightarrow> []);
             (reqs', components) = itemsLoop rest
         in (reqs @ reqs', found @ components)))"

text \<open>
  The loop of \<^verbatim>\<open>loadComponentsFromGitHub\<close> over the search paths; the exception of a
  path is caught and logged. The remote answers a listing request for a path.
\<close>

fun searchPathsLoop ::
  "(string \<Rightarrow> entry list option) \<Rightarrow> string list \<Rightarrow> request list \<times> ComponentMetadata list" where
  "searchPathsLoop remote [] = ([], [])"
| "searchPathsLoop remote (p # ps) =
     (let (reqs, r) = fetchComponentsFromDirectory p (remote p);
          dirComponents = (case r of Inl e \<Rightarrow> [] | Inr cs \<Rightarrow> cs);
          (reqs', components) = searchPathsLoop remote ps
      in (reqs @ reqs', dirComponents @ components))"

text \<open>
  \<^verbatim>\<open>loadComponentsFromGitHub\<close>. When the search paths gave nothing the root is listed;
  its exception reaches the outer \<^verbatim>\<open>catch\<close>, which logs it and returns the empty list.
  The function never throws.
\<close>

definition searchPaths :: "string list" where
  "searchPaths = [''registry/new-york'', ''src/components'']"

definition loadComponentsFromGitHub ::
  "(string \<Rightarrow> entry list option) \<Rightarrow> request list \<times> ComponentMetadata list" where
  "loadComponentsFromGitHub remote =
     (let (reqs, components) = searchPathsLoop remote searchPaths
      in if length components = 0 then
           (case fetchComponentsFromDirectory [] (remote []) of
              (reqs', Inl e) \<Rightarrow> (reqs @ reqs', [])
            | (reqs', Inr rootComponents) \<Rightarrow> (reqs @ reqs', components @ rootComponents))
         else (reqs, components))"

section \<open>The cache (server.ts)\<close>

text \<open>The two module variables, initially the empty list and 0.\<close>

record cache =
  componentsCache :: "ComponentMetadata list"
  lastCacheUpdate :: int

definition initialCache :: cache where
  "initialCache = \<lparr> componentsCache = [], lastCacheUpdate = 0 \<rparr>"

definition CACHE_DURATION :: int where
  "CACHE_DURATION = 5 * 60 * 1000"

text \<open>
  \<^verbatim>\<open>loadComponents\<close>, for the time \<^verbatim>\<open>Date.now()\<close> of the call in milliseconds and the
  remote as it answers during the call: the cache afterwards, the requests sent, and the
  list returned. One call runs at a time; calls that overlap are outside the model.
\<close>

definition loadComponents ::
  "bool \<Rightarrow> int \<Rightarrow> (string \<Rightarrow> entry list option) \<Rightarrow> cache
     \<Rightarrow> cache \<times> request list \<times> ComponentMetadata list" where
  "loadComponents forceRefresh now remote st =
     (if \<not> forceRefresh \<and> length (componentsCache st) > 0 \<and>
         now - lastCacheUpdate st < CACHE_DURATION
      then (st, [], componentsCache st)
      else
        (let (reqs, components) = loadComponentsFromGitHub remote;
             st = st\<lparr> componentsCache := components \<rparr>;
             st = st\<lparr> lastCacheUpdate := now \<rparr>
         in (st, reqs, componentsCache st)))"


text \<open>
  A remote that fails every request, and one with a single component file, its content
  and the record that the crawl makes of it.
\<close>

definition unreachableRemote :: "string \<Rightarrow> entry list option" where
  "unreachableRemote p = None"

definition exampleItem :: GitHubContentItem where
  "exampleItem =
     \<lparr> item_name = ''GradientCard.tsx'', item_path = ''src/components/GradientCard.tsx'',
       item_type = ''file'',
       download_url = Some ''https://raw.githubusercontent.com/Ashutoshx7/VengeanceUI/main/src/components/GradientCard.tsx'',
       html_url = ''https://github.com/Ashutoshx7/VengeanceUI/blob/main/src/components/GradientCard.tsx'',
       item_size = Some 153 \<rparr>"

definition gradientCardSource :: string where
  "gradientCardSource =
     ''// A card with a gradient\<newline>import React from \"react\";\<newline>import clsx from \"clsx\";\<newline>export const GradientCard = () => <div className=\"transition animation\" />;''"

definition gradientCard :: ComponentMetadata where
  "gradientCard =
     \<lparr> name = ''GradientCard'', category = ''Cards'', description = ''A card with a gradient'',
       sourceUrl = ''https://github.com/Ashutoshx7/VengeanceUI/blob/main/src/components/GradientCard.tsx'',
       demoUrl = None, tags = [''animation'', ''animated'', ''gradient'', ''tailwind''],
       code = gradientCardSource, dependencies = Some [''react'', ''clsx''],
       path = Some ''src/components/GradientCard.tsx'', size_bytes = Some 153 \<rparr>"

definition exampleRemote :: "string \<Rightarrow> entry list option" where
  "exampleRemote p =
     (if p = ''src/components''
      then Some [Entry exampleItem None (Some gradientCardSource)]
      else None)"


section \<open>The tool that prints a component (server.ts)\<close>

text \<open>\<^verbatim>\<open>Array.prototype.join\<close> on strings: the elements in their order, the separator between them.\<close>

fun joinWith :: "string \<Rightarrow> string list \<Rightarrow> string" where
  "joinWith sep [] = []"
| "joinWith sep [x] = x"
| "joinWith sep (x # y # ys) = x @ sep @ joinWith sep (y # ys)"

text \<open>
  \<^verbatim>\<open>get_component_code\<close>, on the component list that \<^verbatim>\<open>loadComponents\<close> returned: the
  text of the reply. \<^verbatim>\<open>include_metadata\<close> is optional and counts as true when absent.
  The name is looked up without regard to letter case; when it is not found, up to five
  components whose name contains it are suggested.
\<close>

definition get_component_code ::
  "ComponentMetadata list \<Rightarrow> string \<Rightarrow> bool option \<Rightarrow> string" where
  "get_component_code components component_name include_metadata =
     (let componentName = trim component_name;
          includeMetadata = (case include_metadata of None \<Rightarrow> True | Some b \<Rightarrow> b)
      in if componentName = [] then ''Please provide a component name''
         else
           case find (\<lambda>c. toLowerCase (name c) = toLowerCase componentName) components of
             None \<Rightarrow>
               (let similar =
                      slice (filter (\<lambda>c. str_includes (toLowerCase (name c))
                                            (toLowerCase componentName)) components) 0 5
                in if length similar > 0
                   then (let suggestions = joinWith ''\<newline>'' (map (\<lambda>c. ''  - '' @ name c) similar)
                         in ''Component \"'' @ componentName @ ''\" not found. Did you mean:\<newline>''
                            @ suggestions)
                   else ''Component \"'' @ componentName
                        @ ''\" not found. Use 'search_components' to find available components.'')
           | Some component' \<Rightarrow>
               (let output = ''# '' @ name component' @ ''\<newline>\<newline>'';
                    output =
                      (if includeMetadata then
                         (let output = output @ ''**Description:** '' @ description component'
                                         @ ''\<newline>\<newline>'';
                              output = output @ ''**Category:** '' @ category component'
                                         @ ''\<newline>\<newline>'';
                              joined = joinWith '', '' (tags component');
                              output = output @ ''**Tags:** ''
                                         @ (if joined = [] then ''None'' else joined)
                                         @ ''\<newline>\<newline>'';
                              output = output @ ''**Source:** '' @ sourceUrl component'
                                         @ ''\<newline>\<newline>''
                          in case dependencies component' of
                               None \<Rightarrow> output
                             | Some ds \<Rightarrow>
                                 if length ds > 0
                                 then output @ ''**Dependencies:**\<newline>''
                                        @ joinWith ''\<newline>'' (map (\<lambda>d. ''  - '' @ d) ds)
                                        @ ''\<newline>\<newline>''
                                 else output)
                       else output)
                in output @ ''## Code:\<newline>\<newline>'' @ [CHR 0x60, CHR 0x60, CHR 0x60] @ ''tsx\<newline>''
                     @ code component' @ ''\<newline>'' @ [CHR 0x60, CHR 0x60, CHR 0x60]))"

section \<open>Properties of the string operations\<close>

lemma lowerChar_code_unit:
  "of_char (lowerChar c) =
     (let n = (of_char c :: nat)
      in if (65 \<le> n \<and> n \<le> 90) \<or> (192 \<le> n \<and> n \<le> 222 \<and> n \<noteq> 215) then n + 32 else n)"
  by (cases c) (simp add: Let_def)

lemma str_includes_iff: "str_includes s sub \<longleftrightarrow> sublist sub s"
  by (induction s) (auto simp: sublist_Cons_right)

lemma str_includes_refl: "str_includes s s"
  by (simp add: str_includes_iff)

lemma slice0_eq:
  "slice xs 0 l = (if 0 \<le> l then take (nat l) xs else take (length xs - nat (- l)) xs)"
  by (auto simp: slice_def Let_def min_def max_def nat_diff_distrib' intro: arg_cong2[where f=take])

lemma slice0_prefix: "prefix (slice xs 0 l) xs"
  by (simp add: slice0_eq take_is_prefix)

lemma prefix_nth: "prefix ys xs \<Longrightarrow> i < length ys \<Longrightarrow> ys ! i = xs ! i"
  by (auto simp: prefix_def nth_append)

lemmas str_eval = toLowerCase_def trim_def isSpace_def

section \<open>The search ranker\<close>

lemma tagsLoop_eq:
  "tagsLoop q ts (sc, mf) =
     (if (\<exists>t \<in> set ts. str_includes (toLowerCase t) q) then (sc + 20, mf @ [''tags''])
      else (sc, mf))"
  by (induction ts) auto

lemma searchLoop_eq:
  "searchLoop q cs acc = acc @ filter (\<lambda>r. 0 < score r) (map (scoreComponent q) cs)"
  by (induction cs arbitrary: acc) (auto simp: Let_def)

lemma score_scoreComponent:
  "score (scoreComponent q c) =
     (if str_includes (toLowerCase (name c)) q then 50 else 0) +
     (if str_includes (toLowerCase (category c)) q then 30 else 0) +
     (if (\<exists>t \<in> set (tags c). str_includes (toLowerCase t) q) then 20 else 0) +
     (if str_includes (toLowerCase (description c)) q then 10 else 0) +
     (if toLowerCase (name c) = q then 30 else 0)"
  by (simp add: scoreComponent_def tagsLoop_eq Let_def)

lemma matchedFields_scoreComponent:
  "matchedFields (scoreComponent q c) =
     (if str_includes (toLowerCase (name c)) q then [''name''] else []) @
     (if str_includes (toLowerCase (category c)) q then [''category''] else []) @
     (if (\<exists>t \<in> set (tags c). str_includes (toLowerCase t) q) then [''tags''] else []) @
     (if str_includes (toLowerCase (description c)) q then [''description''] else [])"
  by (simp add: scoreComponent_def tagsLoop_eq Let_def)

lemma component_scoreComponent: "component (scoreComponent q c) = c"
  by (simp add: scoreComponent_def Let_def)

lemma toLowerCase_Button: "toLowerCase ''Button'' = ''button''"
  by (simp add: toLowerCase_def)

lemma search_components_eq:
  "search_components comps raw lim =
     (if trim (toLowerCase raw) = [] then PleaseProvideQuery
      else TopResults (slice (sortByScore (filter (\<lambda>r. 0 < score r)
             (map (scoreComponent (trim (toLowerCase raw))) comps)))
             0 (case lim of None \<Rightarrow> 10 | Some l \<Rightarrow> l)))"
  by (simp add: search_components_def searchLoop_eq Let_def)

lemma sortByScore_sorted: "sorted_wrt (\<lambda>a b. score b \<le> score a) (sortByScore rs)"
proof -
  have "sorted (map (\<lambda>r. - score r) (sortByScore rs))"
    unfolding sortByScore_def by (rule sorted_sort_key)
  then show ?thesis by (simp add: sorted_map)
qed

lemma sortByScore_stable:
  "filter (\<lambda>r. score r = k) (sortByScore rs) = filter (\<lambda>r. score r = k) rs"
proof -
  have "filter (\<lambda>r. - score r = - k) (sortByScore rs) = filter (\<lambda>r. - score r = - k) rs"
    unfolding sortByScore_def by (rule sort_key_stable)
  then show ?thesis by simp
qed

lemma set_sortByScore: "set (sortByScore rs) = set rs"
  by (simp add: sortByScore_def)

lemma search_results_ranked:
  assumes "search_components comps raw lim = TopResults rs" and "i < j" and "j < length rs"
  shows "score (rs ! j) \<le> score (rs ! i)"
proof -
  let ?cand = "filter (\<lambda>r. 0 < score r) (map (scoreComponent (trim (toLowerCase raw))) comps)"
  from assms(1) have rs: "rs = slice (sortByScore ?cand) 0 (case lim of None \<Rightarrow> 10 | Some l \<Rightarrow> l)"
    by (simp add: search_components_eq split: if_splits)
  then have p: "prefix rs (sortByScore ?cand)" by (simp add: slice0_prefix)
  then have len: "length rs \<le> length (sortByScore ?cand)" by (rule prefix_length_le)
  have "score (sortByScore ?cand ! j) \<le> score (sortByScore ?cand ! i)"
    using sortByScore_sorted[of ?cand] assms(2,3) len by (simp add: sorted_wrt_iff_nth_less)
  with p assms(2,3) show ?thesis by (simp add: prefix_nth)
qed

lemma search_results_scored:
  assumes "search_components comps raw lim = TopResults rs" and "r \<in> set rs"
  shows "\<exists>c \<in> set comps. r = scoreComponent (trim (toLowerCase raw)) c \<and> 0 < score r"
proof -
  let ?cand = "filter (\<lambda>r. 0 < score r) (map (scoreComponent (trim (toLowerCase raw))) comps)"
  from assms(1) have rs: "rs = slice (sortByScore ?cand) 0 (case lim of None \<Rightarrow> 10 | Some l \<Rightarrow> l)"
    by (simp add: search_components_eq split: if_splits)
  then have "prefix rs (sortByScore ?cand)" by (simp add: slice0_prefix)
  then have "set rs \<subseteq> set (sortByScore ?cand)" by (rule set_mono_prefix)
  with assms(2) have "r \<in> set ?cand" by (auto simp: set_sortByScore)
  then show ?thesis by auto
qed

lemma scoreComponent_exampleButton:
  "scoreComponent ''button'' exampleButton =
     \<lparr> component = exampleButton, score = 110, matchedFields = [''name'', ''category''] \<rparr>"
  by (simp add: scoreComponent_def exampleButton_def str_eval)

lemma scoreComponent_exampleTooltip:
  "scoreComponent ''button'' exampleTooltip =
     \<lparr> component = exampleTooltip, score = 10, matchedFields = [''description''] \<rparr>"
  by (simp add: scoreComponent_def exampleTooltip_def str_eval)

lemma search_example:
  "search_components [exampleTooltip, exampleButton] '' Button '' None =
     TopResults [scoreComponent ''button'' exampleButton, scoreComponent ''button'' exampleTooltip]"
proof -
  have "trim (toLowerCase '' Button '') = ''button''"
    by (simp add: str_eval)
  then show ?thesis
    by (simp add: search_components_eq scoreComponent_exampleButton
        scoreComponent_exampleTooltip sortByScore_def slice_def)
qed

lemma matchesOnlyDescription_exampleTooltip: "matchesOnlyDescription ''button'' exampleTooltip"
  by (simp add: matchesOnlyDescription_def exampleTooltip_def str_eval)

text \<open>
  Claim C3. The score that the search loop gives a record is the sum of the weights of the
  field matches that apply: 50 when the lower-cased name contains the query, 30 when the
  lower-cased category does, 20 when at least one lower-cased tag does (once, however many
  tags match), 10 when the lower-cased description does, and 30 more when the lower-cased
  name equals the query. This holds for every query, the non-empty ones in particular. A
  record named \<open>Button\<close> scores at least 80 on the query \<open>button\<close>; a record that matches
  that query on its description alone scores 10; and in every reply of the search for
  \<open>button\<close> the first stands before the second.
\<close>

theorem search_score_is_weighted_sum:
  "score (scoreComponent q c) =
      (if str_includes (toLowerCase (name c)) q then 50 else 0) +
      (if str_includes (toLowerCase (category c)) q then 30 else 0) +
      (if (\<exists>t \<in> set (tags c). str_includes (toLowerCase t) q) then 20 else 0) +
      (if str_includes (toLowerCase (description c)) q then 10 else 0) +
      (if toLowerCase (name c) = q then 30 else 0)
   \<and> (name b = ''Button'' \<longrightarrow> 80 \<le> score (scoreComponent ''button'' b))
   \<and> (matchesOnlyDescription ''button'' d \<longrightarrow> score (scoreComponent ''button'' d) = 10)
   \<and> (name b = ''Button'' \<and> matchesOnlyDescription ''button'' d \<and>
        trim (toLowerCase raw) = ''button'' \<and>
        search_components comps raw lim = TopResults rs \<and>
        i < length rs \<and> j < length rs \<and>
        component (rs ! i) = b \<and> component (rs ! j) = d \<longrightarrow> i < j)"
proof (intro conjI impI)
  show "score (scoreComponent q c) =
      (if str_includes (toLowerCase (name c)) q then 50 else 0) +
      (if str_includes (toLowerCase (category c)) q then 30 else 0) +
      (if (\<exists>t \<in> set (tags c). str_includes (toLowerCase t) q) then 20 else 0) +
      (if str_includes (toLowerCase (description c)) q then 10 else 0) +
      (if toLowerCase (name c) = q then 30 else 0)"
    by (rule score_scoreComponent)
next
  assume "name b = ''Button''"
  then show "80 \<le> score (scoreComponent ''button'' b)"
    by (simp add: score_scoreComponent toLowerCase_Button str_includes_refl)
next
  assume "matchesOnlyDescription ''button'' d"
  then show "score (scoreComponent ''button'' d) = 10"
    by (auto simp: score_scoreComponent matchesOnlyDescription_def str_includes_refl)
next
  assume a: "name b = ''Button'' \<and> matchesOnlyDescription ''button'' d \<and>
        trim (toLowerCase raw) = ''button'' \<and>
        search_components comps raw lim = TopResults rs \<and>
        i < length rs \<and> j < length rs \<and>
        component (rs ! i) = b \<and> component (rs ! j) = d"
  then have q: "trim (toLowerCase raw) = ''button''" and
    s: "search_components comps raw lim = TopResults rs" and
    i: "i < length rs" and j: "j < length rs" and
    ci: "component (rs ! i) = b" and cj: "component (rs ! j) = d" and
    b: "name b = ''Button''" and d: "matchesOnlyDescription ''button'' d"
    by simp_all
  from search_results_scored[OF s nth_mem[OF i]] q ci
  have ri: "rs ! i = scoreComponent ''button'' b"
    by (auto simp: component_scoreComponent)
  from search_results_scored[OF s nth_mem[OF j]] q cj
  have rj: "rs ! j = scoreComponent ''button'' d"
    by (auto simp: component_scoreComponent)
  from b have sb: "80 \<le> score (rs ! i)"
    by (simp add: ri score_scoreComponent toLowerCase_Button str_includes_refl)
  from d have sd: "score (rs ! j) = 10"
    by (auto simp: rj score_scoreComponent matchesOnlyDescription_def str_includes_refl)
  show "i < j"
  proof (rule ccontr)
    assume "\<not> i < j"
    then consider "j < i" | "i = j" by linarith
    then show False
    proof cases
      case 1
      from search_results_ranked[OF s 1 i] sb sd show False by simp
    next
      case 2
      with sb sd show False by simp
    qed
  qed
qed

theorem search_score_is_weighted_sum_witness:
  "score (scoreComponent ''button'' exampleButton) = 110
   \<and> name exampleButton = ''Button''
   \<and> 80 \<le> score (scoreComponent ''button'' exampleButton)
   \<and> matchesOnlyDescription ''button'' exampleTooltip
   \<and> score (scoreComponent ''button'' exampleTooltip) = 10
   \<and> trim (toLowerCase '' Button '') = ''button''
   \<and> search_components [exampleTooltip, exampleButton] '' Button '' None =
       TopResults [scoreComponent ''button'' exampleButton, scoreComponent ''button'' exampleTooltip]
   \<and> component ([scoreComponent ''button'' exampleButton,
                  scoreComponent ''button'' exampleTooltip] ! 0) = exampleButton
   \<and> component ([scoreComponent ''button'' exampleButton,
                  scoreComponent ''button'' exampleTooltip] ! 1) = exampleTooltip
   \<and> (0::nat) < 1"
proof -
  have n: "name exampleButton = ''Button''"
    by (simp add: exampleButton_def)
  have t: "trim (toLowerCase '' Button '') = ''button''"
    by (simp add: str_eval)
  note inst = search_score_is_weighted_sum
    [of "''button''" exampleButton exampleButton exampleTooltip "'' Button ''"
        "[exampleTooltip, exampleButton]" None
        "[scoreComponent ''button'' exampleButton, scoreComponent ''button'' exampleTooltip]"
        0 1]
  show ?thesis
    using inst n t matchesOnlyDescription_exampleTooltip search_example
    by (simp add: component_scoreComponent scoreComponent_exampleButton
        scoreComponent_exampleTooltip)
qed

lemma str_includes_Nil: "str_includes s []"
  by (cases s) simp_all

lemma fieldWeight_simps:
  "fieldWeight ''name'' = 50" "fieldWeight ''category'' = 30"
  "fieldWeight ''tags'' = 20" "fieldWeight ''description'' = 10"
  by (simp_all add: fieldWeight_def)

text \<open>
  Claim C6. For every record and every query (the non-empty ones in particular), the
  result that the search loop computes has a positive score exactly when its list of
  matched fields is not empty. The score is the sum of the weights of the listed fields,
  each of them positive, plus the bonus of 30 for a name equal to the query; that bonus
  comes only together with the field \<open>name\<close>, so it never makes a score positive on its
  own. Every result of a search reply has a positive score and a matched field.
\<close>

theorem score_positive_iff_matched:
  "(0 < score (scoreComponent q c) \<longleftrightarrow> matchedFields (scoreComponent q c) \<noteq> [])
   \<and> score (scoreComponent q c) =
       sum_list (map fieldWeight (matchedFields (scoreComponent q c))) +
       (if toLowerCase (name c) = q then 30 else 0)
   \<and> (\<forall>f \<in> set (matchedFields (scoreComponent q c)). 0 < fieldWeight f)
   \<and> (toLowerCase (name c) = q \<longrightarrow> ''name'' \<in> set (matchedFields (scoreComponent q c)))
   \<and> (search_components comps raw lim = TopResults rs \<and> r \<in> set rs \<longrightarrow>
        0 < score r \<and> matchedFields r \<noteq> [])"
proof (intro conjI impI)
  show iff: "0 < score (scoreComponent q c) \<longleftrightarrow> matchedFields (scoreComponent q c) \<noteq> []" for q c
    by (auto simp: score_scoreComponent matchedFields_scoreComponent str_includes_refl)
  show "score (scoreComponent q c) =
       sum_list (map fieldWeight (matchedFields (scoreComponent q c))) +
       (if toLowerCase (name c) = q then 30 else 0)"
    by (simp add: score_scoreComponent matchedFields_scoreComponent fieldWeight_simps)
  show "\<forall>f \<in> set (matchedFields (scoreComponent q c)). 0 < fieldWeight f"
    by (auto simp: matchedFields_scoreComponent fieldWeight_simps split: if_splits)
  show "''name'' \<in> set (matchedFields (scoreComponent q c))" if "toLowerCase (name c) = q"
    using that by (simp add: matchedFields_scoreComponent str_includes_refl)
  show "0 < score r" if "search_components comps raw lim = TopResults rs \<and> r \<in> set rs"
    using search_results_scored[of comps raw lim rs r] that by auto
  show "matchedFields r \<noteq> []" if "search_components comps raw lim = TopResults rs \<and> r \<in> set rs"
    using search_results_scored[of comps raw lim rs r] that iff by auto
qed

lemma toLowerCase_name_exampleButton: "toLowerCase (name exampleButton) = ''button''"
  by (simp add: exampleButton_def toLowerCase_def)

theorem score_positive_iff_matched_witness:
  "0 < score (scoreComponent ''button'' exampleButton)
   \<and> matchedFields (scoreComponent ''button'' exampleButton) = [''name'', ''category'']
   \<and> score (scoreComponent ''button'' exampleButton) = 50 + 30 + 30
   \<and> 0 < fieldWeight ''name'' \<and> 0 < fieldWeight ''category''
   \<and> toLowerCase (name exampleButton) = ''button''
   \<and> search_components [exampleTooltip, exampleButton] '' Button '' None =
       TopResults [scoreComponent ''button'' exampleButton, scoreComponent ''button'' exampleTooltip]
   \<and> 0 < score (scoreComponent ''button'' exampleTooltip)
   \<and> matchedFields (scoreComponent ''button'' exampleTooltip) \<noteq> []"
  using score_positive_iff_matched
    [of "''button''" exampleButton "[exampleTooltip, exampleButton]" "'' Button ''" None
        "[scoreComponent ''button'' exampleButton, scoreComponent ''button'' exampleTooltip]"
        "scoreComponent ''button'' exampleTooltip"]
    search_example toLowerCase_name_exampleButton
  by (simp add: scoreComponent_exampleButton scoreComponent_exampleTooltip fieldWeight_simps)

text \<open>
  Claim C5, as stated, fails on the code. For the empty query the claimed pipeline ranks
  the one record of the catalogue (every field contains the empty string), while
  \<^verbatim>\<open>search_components\<close> returns its prompt and no result list. For the limit \<open>-1\<close> the
  claimed truncation leaves nothing, while \<^verbatim>\<open>slice(0, -1)\<close> drops only the last result.
\<close>

theorem search_unconditional_pipeline_counterexample:
  "search_components [exampleButton] '''' None = PleaseProvideQuery
   \<and> rankedSearch [exampleButton] (trim (toLowerCase '''')) 10 = [scoreComponent '''' exampleButton]
   \<and> search_components [exampleButton] '''' None
       \<noteq> TopResults (rankedSearch [exampleButton] (trim (toLowerCase '''')) 10)
   \<and> search_components [exampleButton, exampleTooltip] ''button'' (Some (- 1)) =
       TopResults [scoreComponent ''button'' exampleButton]
   \<and> rankedSearch [exampleButton, exampleTooltip] (trim (toLowerCase ''button'')) (- 1) = []"
proof -
  have s: "0 < score (scoreComponent '''' exampleButton)"
    by (simp add: score_scoreComponent str_includes_Nil)
  have t: "trim (toLowerCase ''button'') = ''button''"
    by (simp add: str_eval)
  show ?thesis
    by (simp add: search_components_eq rankedSearch_def str_eval s t
        scoreComponent_exampleButton scoreComponent_exampleTooltip sortByScore_def slice_def)
qed

text \<open>
  Claim C5, amended. A query that is empty after lower-casing and trimming gets the
  prompt and no results, whatever the record list and the limit. For every record list,
  every query that is not empty after lower-casing and trimming, and every integer limit
  (10 when none is given), the reply is built in this order: the records that score 0 are
  dropped; the rest is sorted by descending score, records of equal score keeping their
  order in the record list; the sorted list is cut by \<^verbatim>\<open>slice(0, limit)\<close>, which keeps
  the first \<open>limit\<close> results for a limit that is not negative and drops the last
  \<open>-limit\<close> results for a negative one.
\<close>

theorem search_ranking_pipeline:
  "(trim (toLowerCase raw) = [] \<longrightarrow> search_components comps raw lim = PleaseProvideQuery)
   \<and> (trim (toLowerCase raw) \<noteq> [] \<longrightarrow>
        (\<exists>ranked.
           search_components comps raw lim =
             TopResults (let l = (case lim of None \<Rightarrow> 10 | Some l \<Rightarrow> l)
                         in if 0 \<le> l then take (nat l) ranked
                            else take (length ranked - nat (- l)) ranked)
           \<and> sorted_wrt (\<lambda>a b. score b \<le> score a) ranked
           \<and> (\<forall>k. filter (\<lambda>r. score r = k) ranked =
                    filter (\<lambda>r. score r = k)
                      (filter (\<lambda>r. 0 < score r)
                         (map (scoreComponent (trim (toLowerCase raw))) comps)))))"
proof (intro conjI impI)
  show "search_components comps raw lim = PleaseProvideQuery" if "trim (toLowerCase raw) = []"
    using that by (simp add: search_components_eq)
next
  assume q: "trim (toLowerCase raw) \<noteq> []"
  let ?cand = "filter (\<lambda>r. 0 < score r) (map (scoreComponent (trim (toLowerCase raw))) comps)"
  have "search_components comps raw lim =
       TopResults (let l = (case lim of None \<Rightarrow> 10 | Some l \<Rightarrow> l)
                   in if 0 \<le> l then take (nat l) (sortByScore ?cand)
                      else take (length (sortByScore ?cand) - nat (- l)) (sortByScore ?cand))"
    using q by (simp add: search_components_eq slice0_eq Let_def)
  moreover have "sorted_wrt (\<lambda>a b. score b \<le> score a) (sortByScore ?cand)"
    by (rule sortByScore_sorted)
  moreover have "\<forall>k. filter (\<lambda>r. score r = k) (sortByScore ?cand) = filter (\<lambda>r. score r = k) ?cand"
    by (simp add: sortByScore_stable)
  ultimately show "\<exists>ranked.
           search_components comps raw lim =
             TopResults (let l = (case lim of None \<Rightarrow> 10 | Some l \<Rightarrow> l)
                         in if 0 \<le> l then take (nat l) ranked
                            else take (length ranked - nat (- l)) ranked)
           \<and> sorted_wrt (\<lambda>a b. score b \<le> score a) ranked
           \<and> (\<forall>k. filter (\<lambda>r. score r = k) ranked =
                    filter (\<lambda>r. score r = k)
                      (filter (\<lambda>r. 0 < score r)
                         (map (scoreComponent (trim (toLowerCase raw))) comps)))"
    by blast
qed

theorem search_ranking_pipeline_witness:
  "trim (toLowerCase [CHR 0x20, CHR 0x09, CHR 0x20]) = []
   \<and> search_components [exampleTooltip, exampleButton] [CHR 0x20, CHR 0x09, CHR 0x20] (Some 1) =
       PleaseProvideQuery
   \<and> trim (toLowerCase '' Button '') \<noteq> []
   \<and> (\<exists>ranked.
     search_components [exampleTooltip, exampleButton] '' Button '' (Some 1) =
       TopResults (let l = (case Some 1 of None \<Rightarrow> 10 | Some l \<Rightarrow> l)
                   in if 0 \<le> l then take (nat l) ranked
                      else take (length ranked - nat (- l)) ranked)
     \<and> sorted_wrt (\<lambda>a b. score b \<le> score a) ranked
     \<and> (\<forall>k. filter (\<lambda>r. score r = k) ranked =
              filter (\<lambda>r. score r = k)
                (filter (\<lambda>r. 0 < score r)
                   (map (scoreComponent (trim (toLowerCase '' Button ''))) [exampleTooltip, exampleButton]))))"
proof -
  have e: "trim (toLowerCase [CHR 0x20, CHR 0x09, CHR 0x20]) = []"
    by (simp add: str_eval)
  have t: "trim (toLowerCase '' Button '') \<noteq> []"
    by (simp add: str_eval)
  note i1 = search_ranking_pipeline
    [of "[CHR 0x20, CHR 0x09, CHR 0x20]" "[exampleTooltip, exampleButton]" "Some 1"]
  note i2 = search_ranking_pipeline[of "'' Button ''" "[exampleTooltip, exampleButton]" "Some 1"]
  from i1 e have p: "search_components [exampleTooltip, exampleButton]
      [CHR 0x20, CHR 0x09, CHR 0x20] (Some 1) = PleaseProvideQuery"
    by blast
  from i2 t have r: "\<exists>ranked.
     search_components [exampleTooltip, exampleButton] '' Button '' (Some 1) =
       TopResults (let l = (case Some 1 of None \<Rightarrow> 10 | Some l \<Rightarrow> l)
                   in if 0 \<le> l then take (nat l) ranked
                      else take (length ranked - nat (- l)) ranked)
     \<and> sorted_wrt (\<lambda>a b. score b \<le> score a) ranked
     \<and> (\<forall>k. filter (\<lambda>r. score r = k) ranked =
              filter (\<lambda>r. score r = k)
                (filter (\<lambda>r. 0 < score r)
                   (map (scoreComponent (trim (toLowerCase '' Button ''))) [exampleTooltip, exampleButton])))"
    by blast
  from e p t r show ?thesis by blast
qed

text \<open>
  Claim C10. In \<^verbatim>\<open>list_components\<close> a limit of 0 is the same as no limit: the reply holds
  every record that passes the category filter. A positive limit cuts the list.
\<close>

theorem list_limit_zero_is_no_limit:
  "list_components comps cat (Some 0) = list_components comps cat None
   \<and> list_components comps cat (Some 0) =
       (let filtered = (case cat of None \<Rightarrow> comps
                        | Some k \<Rightarrow> if k = [] then comps
                                    else filter (\<lambda>c. toLowerCase (category c) = toLowerCase k) comps)
        in (length filtered, map formatComponentSummary filtered))
   \<and> list_components comps None (Some 0) = (length comps, map formatComponentSummary comps)
   \<and> (0 < l \<longrightarrow> list_components comps None (Some l) =
         (min (nat l) (length comps), map formatComponentSummary (take (nat l) comps)))"
  by (auto simp: list_components_def Let_def slice0_eq split: option.splits)

theorem list_limit_zero_is_no_limit_witness:
  "list_components [exampleButton, exampleTooltip] (Some ''buttons'') (Some 0) =
     (1, [formatComponentSummary exampleButton])
   \<and> list_components [exampleButton, exampleTooltip] None (Some 0) =
     (2, [formatComponentSummary exampleButton, formatComponentSummary exampleTooltip])
   \<and> (0::int) < 1
   \<and> list_components [exampleButton, exampleTooltip] None (Some 1) =
     (1, [formatComponentSummary exampleButton])"
  using list_limit_zero_is_no_limit[of "[exampleButton, exampleTooltip]" "Some ''buttons''" 1]
    list_limit_zero_is_no_limit[of "[exampleButton, exampleTooltip]" None 1]
  by (simp add: list_components_def slice_def exampleButton_def exampleTooltip_def toLowerCase_def)


section \<open>The metadata extractor\<close>

lemmas rx_eval = andThen_def lit_def consumed_def isLineTerminator_def isWordChar_def isQuote_def
  isSpecifierChar_def isSpace_def

lemma str_endsWith_eval: "str_endsWith s p = prefix (rev p) (rev s)"
  by (simp add: str_endsWith_def suffix_to_prefix)

subsection \<open>Categories\<close>

lemma categoryLoop_append:
  "categoryLoop (xs @ ys) n = (case categoryLoop xs n of Some c \<Rightarrow> Some c | None \<Rightarrow> categoryLoop ys n)"
  by (induction xs) auto

lemma categoryLoop_find:
  "categoryLoop xs n = map_option snd (find (\<lambda>(key, cat). str_includes n key) xs)"
  by (induction xs) auto

lemma categoryLoop_uniform:
  "categoryLoop (map (\<lambda>k. (k, c)) ks) n = (if \<exists>k \<in> set ks. str_includes n k then Some c else None)"
  by (induction ks) auto

lemma categoryMap_split:
  "categoryMap =
     [(''button'', ''Buttons''), (''btn'', ''Buttons''), (''card'', ''Cards'')] @
     map (\<lambda>k. (k, ''Forms'')) [''input'', ''form'', ''select'', ''checkbox'', ''radio'', ''toggle'', ''switch''] @
     map (\<lambda>k. (k, ''Navigation'')) [''nav'', ''header'', ''footer'', ''sidebar'', ''menu''] @
     map (\<lambda>k. (k, ''Overlays'')) [''modal'', ''dialog'', ''popover'', ''tooltip'', ''dropdown'', ''sheet'', ''drawer''] @
     map (\<lambda>k. (k, ''Data Display'')) [''badge'', ''avatar'', ''list'', ''table''] @
     map (\<lambda>k. (k, ''Navigation'')) [''tabs''] @
     map (\<lambda>k. (k, ''Data Display'')) [''accordion'', ''carousel''] @
     map (\<lambda>k. (k, ''Forms'')) [''slider''] @
     drop 30 categoryMap"
  by (simp add: categoryMap_def)

lemma specCategoryTable_split:
  "specCategoryTable =
     [(''button'', ''Buttons''), (''btn'', ''Buttons''), (''card'', ''Cards'')] @
     map (\<lambda>k. (k, ''Forms'')) [''input'', ''form'', ''select'', ''checkbox'', ''radio'', ''toggle'', ''switch''] @
     map (\<lambda>k. (k, ''Forms'')) [''slider''] @
     map (\<lambda>k. (k, ''Navigation'')) [''nav'', ''header'', ''footer'', ''sidebar'', ''menu''] @
     map (\<lambda>k. (k, ''Navigation'')) [''tabs''] @
     map (\<lambda>k. (k, ''Overlays'')) [''modal'', ''dialog'', ''popover'', ''tooltip'', ''dropdown'', ''sheet'', ''drawer''] @
     map (\<lambda>k. (k, ''Data Display'')) [''badge'', ''avatar'', ''list'', ''table''] @
     map (\<lambda>k. (k, ''Data Display'')) [''accordion'', ''carousel''] @
     drop 30 categoryMap"
  by (simp add: specCategoryTable_def specCategoryRules_def categoryMap_def)


lemma contentFallback_eq:
  "(case find (\<lambda>(markers, cat). \<exists>m \<in> set markers. str_includes src m) specContentMarkers of
      Some (markers, cat) \<Rightarrow> cat
    | None \<Rightarrow> ''Components'') =
   (if str_includes src ''Button'' \<or> str_includes src ''btn'' then ''Buttons''
    else if str_includes src ''Card'' then ''Cards''
    else if str_includes src ''Input'' \<or> str_includes src ''Form'' then ''Forms''
    else if str_includes src ''Modal'' \<or> str_includes src ''Dialog'' then ''Overlays''
    else if str_includes src ''Nav'' then ''Navigation''
    else ''Components'')"
  by (simp add: specContentMarkers_def)

lemma specExtractCategory_loop:
  "specExtractCategory componentName src =
     (case categoryLoop specCategoryTable (toLowerCase componentName) of
        Some cat \<Rightarrow> cat
      | None \<Rightarrow>
          if str_includes src ''Button'' \<or> str_includes src ''btn'' then ''Buttons''
          else if str_includes src ''Card'' then ''Cards''
          else if str_includes src ''Input'' \<or> str_includes src ''Form'' then ''Forms''
          else if str_includes src ''Modal'' \<or> str_includes src ''Dialog'' then ''Overlays''
          else if str_includes src ''Nav'' then ''Navigation''
          else ''Components'')"
  unfolding specExtractCategory_def contentFallback_eq categoryLoop_find
  by (simp split: option.splits prod.splits)

lemma order_abstract:
  fixes r :: "string option" and f :: string
  shows
  "((case (if b1 then Some ''Buttons'' else if b2 then Some ''Buttons''
           else if b3 then Some ''Cards'' else if hF then Some ''Forms''
           else if hB then Some ''Navigation'' else if hD1 then Some ''Overlays''
           else if hD2 then Some ''Data Display'' else if hT then Some ''Navigation''
           else if hE then Some ''Data Display'' else if hS then Some ''Forms'' else r)
     of Some c \<Rightarrow> c | None \<Rightarrow> f) =
    (case (if b1 then Some ''Buttons'' else if b2 then Some ''Buttons''
           else if b3 then Some ''Cards'' else if hF then Some ''Forms''
           else if hS then Some ''Forms''
           else if hB then Some ''Navigation'' else if hT then Some ''Navigation''
           else if hD1 then Some ''Overlays''
           else if hD2 then Some ''Data Display''
           else if hE then Some ''Data Display'' else r)
     of Some c \<Rightarrow> c | None \<Rightarrow> f))
   \<longleftrightarrow> \<not> (\<not> (b1 \<or> b2 \<or> b3 \<or> hF) \<and>
            (if hS then hB \<or> (hD1 \<or> hD2) \<or> hT \<or> hE else \<not> hB \<and> hT \<and> (hD1 \<or> hD2)))"
  by auto

lemma categoryLoop_categoryMap:
  "categoryLoop categoryMap n =
     (if str_includes n ''button'' then Some ''Buttons'' else if str_includes n ''btn'' then Some ''Buttons''
      else if str_includes n ''card'' then Some ''Cards''
      else if (\<exists>k \<in> set [''input'', ''form'', ''select'', ''checkbox'', ''radio'', ''toggle'', ''switch'']. str_includes n k) then Some ''Forms''
      else if (\<exists>k \<in> set [''nav'', ''header'', ''footer'', ''sidebar'', ''menu'']. str_includes n k) then Some ''Navigation''
      else if (\<exists>k \<in> set [''modal'', ''dialog'', ''popover'', ''tooltip'', ''dropdown'', ''sheet'', ''drawer'']. str_includes n k) then Some ''Overlays''
      else if (\<exists>k \<in> set [''badge'', ''avatar'', ''list'', ''table'']. str_includes n k) then Some ''Data Display''
      else if (\<exists>k \<in> set [''tabs'']. str_includes n k) then Some ''Navigation''
      else if (\<exists>k \<in> set [''accordion'', ''carousel'']. str_includes n k) then Some ''Data Display''
      else if (\<exists>k \<in> set [''slider'']. str_includes n k) then Some ''Forms''
      else categoryLoop (drop 30 categoryMap) n)"
  apply (subst categoryMap_split)
  apply (simp only: categoryLoop_append categoryLoop_uniform)
  apply (simp del: set_simps bex_simps)
  done


lemma categoryLoop_specCategoryTable:
  "categoryLoop specCategoryTable n =
     (if str_includes n ''button'' then Some ''Buttons'' else if str_includes n ''btn'' then Some ''Buttons''
      else if str_includes n ''card'' then Some ''Cards''
      else if (\<exists>k \<in> set [''input'', ''form'', ''select'', ''checkbox'', ''radio'', ''toggle'', ''switch'']. str_includes n k) then Some ''Forms''
      else if (\<exists>k \<in> set [''slider'']. str_includes n k) then Some ''Forms''
      else if (\<exists>k \<in> set [''nav'', ''header'', ''footer'', ''sidebar'', ''menu'']. str_includes n k) then Some ''Navigation''
      else if (\<exists>k \<in> set [''tabs'']. str_includes n k) then Some ''Navigation''
      else if (\<exists>k \<in> set [''modal'', ''dialog'', ''popover'', ''tooltip'', ''dropdown'', ''sheet'', ''drawer'']. str_includes n k) then Some ''Overlays''
      else if (\<exists>k \<in> set [''badge'', ''avatar'', ''list'', ''table'']. str_includes n k) then Some ''Data Display''
      else if (\<exists>k \<in> set [''accordion'', ''carousel'']. str_includes n k) then Some ''Data Display''
      else categoryLoop (drop 30 categoryMap) n)"
  apply (subst specCategoryTable_split)
  apply (simp only: categoryLoop_append categoryLoop_uniform)
  apply (simp del: set_simps bex_simps)
  done

lemma keywordOrderMatters_eq:
  "keywordOrderMatters n =
    (\<not> (str_includes n ''button'' \<or> str_includes n ''btn'' \<or> str_includes n ''card'' \<or>
         (\<exists>k \<in> set [''input'', ''form'', ''select'', ''checkbox'', ''radio'', ''toggle'', ''switch'']. str_includes n k)) \<and>
     (if (\<exists>k \<in> set [''slider'']. str_includes n k)
      then (\<exists>k \<in> set [''nav'', ''header'', ''footer'', ''sidebar'', ''menu'']. str_includes n k) \<or>
           ((\<exists>k \<in> set [''modal'', ''dialog'', ''popover'', ''tooltip'', ''dropdown'', ''sheet'', ''drawer'']. str_includes n k) \<or>
            (\<exists>k \<in> set [''badge'', ''avatar'', ''list'', ''table'']. str_includes n k)) \<or>
           (\<exists>k \<in> set [''tabs'']. str_includes n k) \<or>
           (\<exists>k \<in> set [''accordion'', ''carousel'']. str_includes n k)
      else \<not> (\<exists>k \<in> set [''nav'', ''header'', ''footer'', ''sidebar'', ''menu'']. str_includes n k) \<and>
           (\<exists>k \<in> set [''tabs'']. str_includes n k) \<and>
           ((\<exists>k \<in> set [''modal'', ''dialog'', ''popover'', ''tooltip'', ''dropdown'', ''sheet'', ''drawer'']. str_includes n k) \<or>
            (\<exists>k \<in> set [''badge'', ''avatar'', ''list'', ''table'']. str_includes n k))))"
  unfolding keywordOrderMatters_def Let_def
  by (simp cong: if_cong) 

lemma extractCategory_loop:
  "extractCategory componentName src =
     (case categoryLoop categoryMap (toLowerCase componentName) of
        Some cat \<Rightarrow> cat
      | None \<Rightarrow>
          if str_includes src ''Button'' \<or> str_includes src ''btn'' then ''Buttons''
          else if str_includes src ''Card'' then ''Cards''
          else if str_includes src ''Input'' \<or> str_includes src ''Form'' then ''Forms''
          else if str_includes src ''Modal'' \<or> str_includes src ''Dialog'' then ''Overlays''
          else if str_includes src ''Nav'' then ''Navigation''
          else ''Components'')"
  by (simp add: extractCategory_def Let_def)

lemma extractCategory_agrees_iff:
  "extractCategory componentName src = specExtractCategory componentName src
     \<longleftrightarrow> \<not> keywordOrderMatters (toLowerCase componentName)"
  unfolding extractCategory_loop specExtractCategory_loop
    categoryLoop_categoryMap categoryLoop_specCategoryTable keywordOrderMatters_eq
  by (rule order_abstract)


lemma categoryLoop_button:
  "str_includes n ''button'' \<Longrightarrow> categoryLoop categoryMap n = Some ''Buttons''"
  by (simp add: categoryMap_def)

lemma categoryLoop_None:
  "\<forall>(key, cat) \<in> set xs. \<not> str_includes n key \<Longrightarrow> categoryLoop xs n = None"
  by (induction xs) auto

text \<open>
  Claim C2, as stated, fails on the code. The name \<open>CarouselSlider\<close> contains the
  keywords \<open>carousel\<close> and \<open>slider\<close>. The specification has \<open>slider\<close> in its third group
  (Forms) and \<open>carousel\<close> in its sixth (Data Display), so its first match is Forms; the
  source lists \<open>carousel\<close> before \<open>slider\<close> and answers Data Display.
\<close>

theorem extractCategory_spec_order_counterexample:
  "extractCategory ''CarouselSlider'' [] = ''Data Display''
   \<and> specExtractCategory ''CarouselSlider'' [] = ''Forms''
   \<and> extractCategory ''CarouselSlider'' [] \<noteq> specExtractCategory ''CarouselSlider'' []"
proof -
  have l: "toLowerCase ''CarouselSlider'' = ''carouselslider''"
    by (simp add: toLowerCase_def)
  have c: "extractCategory ''CarouselSlider'' [] = ''Data Display''"
    by (simp add: extractCategory_loop categoryLoop_categoryMap l)
  have s: "specExtractCategory ''CarouselSlider'' [] = ''Forms''"
    by (simp add: specExtractCategory_loop categoryLoop_specCategoryTable l)
  show ?thesis by (simp add: c s)
qed

text \<open>
  Claim C2, amended. Category extraction evaluates the keyword table in the order of the
  source's \<open>categoryMap\<close> against the lower-cased name, the first substring match winning;
  that order is the order of the specification with \<open>tabs\<close> tried after \<open>table\<close> and
  \<open>slider\<close> tried after \<open>carousel\<close>. The result equals the reference definition of the
  specification exactly for the names on which the two orders pick the same rule
  (\<open>keywordOrderMatters\<close> describes the others). Every name that contains \<open>button\<close> in
  any letter case yields \<open>Buttons\<close>. When no keyword matches, the content is searched for
  the markers \<open>Button\<close> or \<open>btn\<close>, \<open>Card\<close>, \<open>Input\<close> or \<open>Form\<close>, \<open>Modal\<close> or \<open>Dialog\<close>,
  \<open>Nav\<close>, in this order, the first hit winning; when nothing matches the result is
  \<open>Components\<close>.
\<close>

theorem extractCategory_source_order:
  "extractCategory componentName src =
     (case find (\<lambda>(key, cat). str_includes (toLowerCase componentName) key) categoryMap of
        Some (key, cat) \<Rightarrow> cat
      | None \<Rightarrow>
          (case find (\<lambda>(markers, cat). \<exists>m \<in> set markers. str_includes src m) specContentMarkers of
             Some (markers, cat) \<Rightarrow> cat
           | None \<Rightarrow> ''Components''))
   \<and> (extractCategory componentName src = specExtractCategory componentName src
        \<longleftrightarrow> \<not> keywordOrderMatters (toLowerCase componentName))
   \<and> (str_includes (toLowerCase componentName) ''button'' \<longrightarrow>
        extractCategory componentName src = ''Buttons'')
   \<and> ((\<forall>(key, cat) \<in> set categoryMap. \<not> str_includes (toLowerCase componentName) key) \<and>
       (\<forall>(markers, cat) \<in> set specContentMarkers. \<forall>m \<in> set markers. \<not> str_includes src m) \<longrightarrow>
        extractCategory componentName src = ''Components'')"
proof (intro conjI impI)
  show "extractCategory componentName src =
     (case find (\<lambda>(key, cat). str_includes (toLowerCase componentName) key) categoryMap of
        Some (key, cat) \<Rightarrow> cat
      | None \<Rightarrow>
          (case find (\<lambda>(markers, cat). \<exists>m \<in> set markers. str_includes src m) specContentMarkers of
             Some (markers, cat) \<Rightarrow> cat
           | None \<Rightarrow> ''Components''))"
    unfolding extractCategory_loop contentFallback_eq categoryLoop_find
    by (simp split: option.splits prod.splits)
  show "extractCategory componentName src = specExtractCategory componentName src
        \<longleftrightarrow> \<not> keywordOrderMatters (toLowerCase componentName)"
    by (rule extractCategory_agrees_iff)
  show "extractCategory componentName src = ''Buttons''"
    if "str_includes (toLowerCase componentName) ''button''"
    using that by (simp add: extractCategory_loop categoryLoop_button)
  show "extractCategory componentName src = ''Components''"
    if "(\<forall>(key, cat) \<in> set categoryMap. \<not> str_includes (toLowerCase componentName) key) \<and>
       (\<forall>(markers, cat) \<in> set specContentMarkers. \<forall>m \<in> set markers. \<not> str_includes src m)"
  proof -
    from that have "categoryLoop categoryMap (toLowerCase componentName) = None"
      by (intro categoryLoop_None) simp
    moreover from that have "\<not> str_includes src ''Button''" "\<not> str_includes src ''btn''"
      "\<not> str_includes src ''Card''" "\<not> str_includes src ''Input''" "\<not> str_includes src ''Form''"
      "\<not> str_includes src ''Modal''" "\<not> str_includes src ''Dialog''" "\<not> str_includes src ''Nav''"
      by (simp_all add: specContentMarkers_def)
    ultimately show ?thesis by (simp add: extractCategory_loop)
  qed
qed

theorem extractCategory_source_order_witness:
  "str_includes (toLowerCase ''AnimatedBUTTON'') ''button''
   \<and> extractCategory ''AnimatedBUTTON'' ''export default 1'' = ''Buttons''
   \<and> \<not> keywordOrderMatters (toLowerCase ''AnimatedBUTTON'')
   \<and> extractCategory ''AnimatedBUTTON'' ''export default 1'' =
      specExtractCategory ''AnimatedBUTTON'' ''export default 1''
   \<and> list_all (\<lambda>(key, cat). \<not> str_includes (toLowerCase ''Widget'') key) categoryMap
   \<and> list_all (\<lambda>(markers, cat). list_all (\<lambda>m. \<not> str_includes ''export default 1'' m) markers)
        specContentMarkers
   \<and> extractCategory ''Widget'' ''export default 1'' = ''Components''"
proof -
  note i1 = extractCategory_source_order[of "''AnimatedBUTTON''" "''export default 1''"]
  note i2 = extractCategory_source_order[of "''Widget''" "''export default 1''"]
  have b: "str_includes (toLowerCase ''AnimatedBUTTON'') ''button''"
    by (simp add: toLowerCase_def)
  have k: "\<not> keywordOrderMatters (toLowerCase ''AnimatedBUTTON'')"
    by (simp add: keywordOrderMatters_eq toLowerCase_def)
  have w1: "list_all (\<lambda>(key, cat). \<not> str_includes (toLowerCase ''Widget'') key) categoryMap"
    by (simp add: categoryMap_def toLowerCase_def)
  have w2: "list_all (\<lambda>(markers, cat). list_all (\<lambda>m. \<not> str_includes ''export default 1'' m) markers)
        specContentMarkers"
    by (simp add: specContentMarkers_def)
  from i1 b have c1: "extractCategory ''AnimatedBUTTON'' ''export default 1'' = ''Buttons''"
    by blast
  from i1 k have c2: "extractCategory ''AnimatedBUTTON'' ''export default 1'' =
      specExtractCategory ''AnimatedBUTTON'' ''export default 1''"
    by blast
  from w1 have w1': "\<forall>(key, cat) \<in> set categoryMap. \<not> str_includes (toLowerCase ''Widget'') key"
    by (simp add: list_all_iff)
  from w2 have w2': "\<forall>(markers, cat) \<in> set specContentMarkers.
      \<forall>m \<in> set markers. \<not> str_includes ''export default 1'' m"
    by (simp add: list_all_iff case_prod_unfold)
  from i2 w1' w2' have c3: "extractCategory ''Widget'' ''export default 1'' = ''Components''"
    by blast
  from b c1 k c2 w1 w2 c3 show ?thesis by blast
qed


subsection \<open>Tags\<close>

lemma set_setAdd: "set (setAdd x xs) = insert x (set xs)"
  by (auto simp: setAdd_def)

lemma distinct_setAdd: "distinct xs \<Longrightarrow> distinct (setAdd x xs)"
  by (simp add: setAdd_def)

lemma setAdd_idem: "setAdd x (setAdd x xs) = setAdd x xs"
  by (simp add: setAdd_def)

lemma addIf_fold:
  "distinct (map snd rs) \<Longrightarrow>
   foldl (\<lambda>tgs (b, t). addIf b t tgs) [] rs = map snd (filter fst rs)"
proof (induction rs rule: rev_induct)
  case Nil
  then show ?case by simp
next
  case (snoc r rs)
  obtain b t where r: "r = (b, t)" by (cases r)
  from snoc.prems r have fresh: "t \<notin> set (map snd (filter fst rs))" and d: "distinct (map snd rs)"
    by auto
  from snoc.IH d have "foldl (\<lambda>tgs (b, t). addIf b t tgs) [] rs = map snd (filter fst rs)"
    by simp
  with fresh show ?case
    by (simp add: r addIf_def setAdd_def)
qed

lemma extractTags_fold:
  "extractTags src =
     foldl (\<lambda>tgs (b, t). addIf b t tgs) []
       (map (\<lambda>(markers, tag). (\<exists>m \<in> set markers. str_includes src m, tag)) tagPredicates)"
  by (simp add: extractTags_def tagPredicates_def Let_def)

lemma extractTags_table:
  "extractTags src =
     map snd (filter (\<lambda>(markers, tag). \<exists>m \<in> set markers. str_includes src m) tagPredicates)"
proof -
  let ?rs = "map (\<lambda>(markers, tag). (\<exists>m \<in> set markers. str_includes src m, tag)) tagPredicates"
  have "map snd ?rs = map snd tagPredicates"
    by (simp add: case_prod_unfold comp_def)
  moreover have "distinct (map snd tagPredicates)"
    by (simp add: tagPredicates_def)
  ultimately have "distinct (map snd ?rs)" by (simp only:)
  then have "extractTags src = map snd (filter fst ?rs)"
    unfolding extractTags_fold by (rule addIf_fold)
  also have "\<dots> = map snd (filter (\<lambda>(markers, tag). \<exists>m \<in> set markers. str_includes src m) tagPredicates)"
    by (simp add: filter_map comp_def case_prod_unfold)
  finally show ?thesis .
qed

subsection \<open>Dependencies\<close>

lemma remdups_drop_known: "c \<in> set ds \<Longrightarrow> remdups (as @ c # ds) = remdups (as @ ds)"
  by (induction as) auto

lemma firstOccurrences_snoc:
  "firstOccurrences (xs @ [x]) = (if x \<in> set xs then firstOccurrences xs else firstOccurrences xs @ [x])"
  by (simp add: firstOccurrences_def)

lemma firstOccurrences_distinct_id: "distinct xs \<Longrightarrow> firstOccurrences xs = xs"
  by (simp add: firstOccurrences_def distinct_remdups_id)

lemma firstOccurrences_known:
  "c \<in> set ds \<Longrightarrow> firstOccurrences (ds @ c # rest) = firstOccurrences (ds @ rest)"
  by (simp add: firstOccurrences_def remdups_drop_known)

lemma addDependencies_Cons:
  "addDependencies (c # rest) deps =
     addDependencies rest (if keptSpecifier c then setAdd c deps else deps)"
  by (simp add: keptSpecifier_def)

lemma remdups_append_remdups: "remdups (xs @ remdups ys) = remdups (xs @ ys)"
  by (induction xs) auto

lemma addDependencies_eq:
  "distinct deps \<Longrightarrow>
   addDependencies caps deps = firstOccurrences (deps @ filter keptSpecifier caps)"
proof (induction caps arbitrary: deps)
  case Nil
  then show ?case by (simp add: firstOccurrences_distinct_id)
next
  case (Cons c caps)
  show ?case
  proof (cases "keptSpecifier c")
    case False
    with Cons show ?thesis by (simp add: addDependencies_Cons del: addDependencies.simps)
  next
    case True
    show ?thesis
    proof (cases "c \<in> set deps")
      case True
      with \<open>keptSpecifier c\<close> Cons show ?thesis
        by (simp add: addDependencies_Cons setAdd_def firstOccurrences_known del: addDependencies.simps)
    next
      case False
      with Cons.prems have "distinct (deps @ [c])" by simp
      from Cons.IH[OF this] False \<open>keptSpecifier c\<close> show ?thesis
        by (simp add: addDependencies_Cons setAdd_def del: addDependencies.simps)
    qed
  qed
qed

lemma extractDependencies_eq:
  "extractDependencies src =
     firstOccurrences (filter keptSpecifier (matchAll matchImport src @ matchAll matchRequire src))"
proof -
  have d: "distinct (firstOccurrences xs)" for xs :: "string list"
    by (simp add: firstOccurrences_def)
  have s: "set (firstOccurrences xs) = set xs" for xs :: "string list"
    by (simp add: firstOccurrences_def)
  have "extractDependencies src =
     addDependencies (matchAll matchRequire src) (addDependencies (matchAll matchImport src) [])"
    by (simp add: extractDependencies_def Let_def)
  also have "\<dots> = firstOccurrences (firstOccurrences (filter keptSpecifier (matchAll matchImport src))
                       @ filter keptSpecifier (matchAll matchRequire src))"
    by (simp add: addDependencies_eq d)
  also have "\<dots> = firstOccurrences (filter keptSpecifier (matchAll matchImport src)
                       @ filter keptSpecifier (matchAll matchRequire src))"
    by (simp add: firstOccurrences_def remdups_append_remdups)
  finally show ?thesis by simp
qed


subsection \<open>Descriptions\<close>

lemma regexSearch_Some:
  "regexSearch m s = Some r \<Longrightarrow> \<exists>t rs. suffix t s \<and> m t = r # rs"
proof (induction s)
  case Nil
  then show ?case by (auto split: list.splits)
next
  case (Cons c cs)
  show ?case
  proof (cases "m (c # cs)")
    case Nil
    with Cons.prems have "regexSearch m cs = Some r" by simp
    from Cons.IH[OF this] obtain t rs where "suffix t cs" "m t = r # rs" by blast
    then show ?thesis by (auto intro: suffix_ConsI)
  next
    case (Cons a list)
    with Cons.prems have "a = r" by simp
    with Cons show ?thesis by auto
  qed
qed

lemma mem_andThen: "y \<in> set (andThen xs f) \<longleftrightarrow> (\<exists>x \<in> set xs. y \<in> set (f x))"
  by (auto simp: andThen_def)

lemma mem_lit: "r \<in> set (lit p s) \<longleftrightarrow> s = p @ r"
  by (auto simp: lit_def prefix_def)

lemma mem_greedyStar:
  "r \<in> set (greedyStar P s) \<Longrightarrow> \<exists>w. s = w @ r \<and> (\<forall>c \<in> set w. P c)"
proof (induction s)
  case Nil
  then show ?case by simp
next
  case (Cons c cs)
  show ?case
  proof (cases "r = c # cs")
    case True
    then show ?thesis by simp
  next
    case False
    with Cons.prems have pc: "P c" and "r \<in> set (greedyStar P cs)"
      by (auto split: if_splits)
    from Cons.IH[OF this(2)] obtain w where "cs = w @ r" "\<forall>c \<in> set w. P c" by blast
    with pc have "c # cs = (c # w) @ r \<and> (\<forall>x \<in> set (c # w). P x)" by simp
    then show ?thesis by blast
  qed
qed

lemma mem_jsdocBody: "r \<in> set (jsdocBody s) \<Longrightarrow> \<exists>b. s = b @ r"
proof (induction s arbitrary: r rule: jsdocBody.induct)
  case 1
  then show ?case by simp
next
  case (2 c)
  then show ?case by (auto split: if_splits)
next
  case (3 c d ds)
  show ?case
  proof (cases "r = c # d # ds")
    case True
    then show ?thesis by simp
  next
    case False
    with "3.prems" consider
      (a) "c \<noteq> CHR ''*''" "r \<in> set (jsdocBody (d # ds))"
      | (b) "c = CHR ''*''" "d \<noteq> CHR ''/''" "r \<in> set (jsdocBody ds)"
      by (auto split: if_splits)
    then show ?thesis
    proof cases
      case a
      from "3.IH"(1)[OF a] obtain b where "d # ds = b @ r" by blast
      then have "c # d # ds = (c # b) @ r" by simp
      then show ?thesis by blast
    next
      case b
      from "3.IH"(2)[OF _ b(2,3)] b(1) obtain b' where "ds = b' @ r" by blast
      then have "c # d # ds = (c # d # b') @ r" by simp
      then show ?thesis by blast
    qed
  qed
qed

lemma consumed_append: "consumed (x @ r) r = x"
  by (simp add: consumed_def)

lemma matchJsdoc_shape:
  assumes "r \<in> set (matchJsdoc t)"
  shows "\<exists>w b. (\<forall>c \<in> set w. isSpace c) \<and> consumed t r = ''/**'' @ w @ [CHR 0x0A] @ b"
proof -
  from assms obtain r1 r2 r3 r4 where
    "r1 \<in> set (lit ''/**'' t)" "r2 \<in> set (greedyStar isSpace r1)"
    "r3 \<in> set (lit [CHR 0x0A] r2)" "r4 \<in> set (jsdocBody r3)" "r \<in> set (lit ''*/'' r4)"
    unfolding matchJsdoc_def mem_andThen by blast
  then obtain w b where "t = ''/**'' @ r1" "r1 = w @ r2" "\<forall>c \<in> set w. isSpace c"
    "r2 = [CHR 0x0A] @ r3" "r3 = b @ r4" "r4 = ''*/'' @ r"
    by (metis mem_lit mem_greedyStar mem_jsdocBody)
  then have "t = (''/**'' @ w @ [CHR 0x0A] @ (b @ ''*/'')) @ r" by simp
  then have "consumed t r = ''/**'' @ w @ [CHR 0x0A] @ (b @ ''*/'')"
    by (simp only: consumed_append)
  with \<open>\<forall>c \<in> set w. isSpace c\<close> show ?thesis by blast
qed

lemma greedyStar_first: "\<exists>rs. greedyStar P s = dropWhile P s # rs"
  by (induction s) auto

lemma consumed_dropWhile: "consumed (c # xs) (dropWhile P xs) = c # takeWhile P xs"
proof -
  have "length xs - length (dropWhile P xs) = length (takeWhile P xs)"
    by (metis add_diff_cancel_right' length_append takeWhile_dropWhile_id)
  then have "take (length xs - length (dropWhile P xs)) xs = takeWhile P xs"
    by (metis takeWhile_eq_take)
  moreover have "length (dropWhile P xs) \<le> length xs"
    by (rule length_dropWhile_le)
  ultimately show ?thesis
    by (simp add: consumed_def Suc_diff_le)
qed

lemma trim_star_spaces:
  assumes "\<forall>c \<in> set v. isSpace c"
  shows "trim (CHR ''*'' # v) = ''*''"
proof -
  have n: "\<not> isSpace CHR ''*''" by (simp add: isSpace_def)
  from assms have "dropWhile isSpace (rev v @ ''*'') = ''*''"
    using n by (simp add: dropWhile_append)
  with n show ?thesis by (simp add: trim_def)
qed

lemma description_of_jsdoc:
  assumes "\<forall>c \<in> set w. isSpace c"
  shows "\<exists>v. (\<forall>c \<in> set v. isSpace c) \<and>
           regexSearch matchDescriptionLine (''/**'' @ w @ [CHR 0x0A] @ b) = Some (CHR ''*'' # v)"
proof -
  let ?Q = "\<lambda>c. c \<noteq> CHR ''@'' \<and> c \<noteq> CHR 0x0A"
  let ?rest = "w @ [CHR 0x0A] @ b"
  let ?v = "takeWhile ?Q ?rest"
  obtain rs where g: "greedyStar ?Q ?rest = dropWhile ?Q ?rest # rs"
    using greedyStar_first by blast
  have n: "\<not> isSpace CHR ''*''" by (simp add: isSpace_def)
  have m0: "matchDescriptionLine (CHR ''/'' # CHR ''*'' # CHR ''*'' # ?rest) = []"
    by (simp add: matchDescriptionLine_def lit_def andThen_def)
  have m1: "matchDescriptionLine (CHR ''*'' # CHR ''*'' # ?rest) =
      map (consumed (CHR ''*'' # ?rest)) (dropWhile ?Q ?rest # rs)"
    using n g by (simp add: matchDescriptionLine_def lit_def andThen_def)
  have "regexSearch matchDescriptionLine (''/**'' @ w @ [CHR 0x0A] @ b) = Some (CHR ''*'' # ?v)"
    using m0 m1 by (simp add: consumed_dropWhile)
  moreover have "\<forall>c \<in> set ?v. isSpace c"
  proof
    fix c assume "c \<in> set ?v"
    moreover have "?v = takeWhile ?Q w"
      by (simp add: takeWhile_append takeWhile_eq_all_conv[THEN iffD2])
    ultimately have "c \<in> set w" by (auto dest: set_takeWhileD)
    with assms show "isSpace c" by blast
  qed
  ultimately show ?thesis by blast
qed

lemma extractDescription_jsdoc:
  assumes "regexSearch (\<lambda>s. map (consumed s) (matchJsdoc s)) src = Some comment"
  shows "extractDescription src componentName = ''*''"
proof -
  from regexSearch_Some[OF assms] obtain t where
    "\<exists>rs. suffix t src \<and> map (consumed t) (matchJsdoc t) = comment # rs" ..
  then obtain rs where
    "suffix t src \<and> map (consumed t) (matchJsdoc t) = comment # rs" ..
  then have "map (consumed t) (matchJsdoc t) = comment # rs" ..
  then obtain r where "r \<in> set (matchJsdoc t)" "comment = consumed t r"
    by (metis list.set_intros(1) list.simps(9) map_eq_Cons_D)
  with matchJsdoc_shape obtain w b where w: "\<forall>c \<in> set w. isSpace c"
    and c: "comment = ''/**'' @ w @ [CHR 0x0A] @ b" by metis
  from description_of_jsdoc[OF w, of b] c obtain v where
    v: "\<forall>c \<in> set v. isSpace c" and "regexSearch matchDescriptionLine comment = Some (CHR ''*'' # v)"
    by blast
  with assms show ?thesis
    by (simp add: extractDescription_def Let_def trim_star_spaces)
qed


subsection \<open>Runs on concrete contents\<close>

lemmas dep_eval = extractDependencies_def matchAll_def matchImport_def matchRequire_def
  matchQuotedSpecifier_def rx_eval setAdd_def str_startsWith_def

lemma matchAll_importsReactAndLocal:
  "matchAll matchImport importsReactAndLocal = [''react'']"
  "matchAll matchRequire importsReactAndLocal = []"
  by (simp_all add: importsReactAndLocal_def matchAll_def matchImport_def matchRequire_def
      matchQuotedSpecifier_def rx_eval)

lemma matchAll_importsLocalAndReact:
  "matchAll matchImport importsLocalAndReact = [''react'']"
  "matchAll matchRequire importsLocalAndReact = []"
  by (simp_all add: importsLocalAndReact_def matchAll_def matchImport_def matchRequire_def
      matchQuotedSpecifier_def rx_eval)

lemma matchAll_importsReactTwice:
  "matchAll matchImport importsReactTwice = [''react'', ''react'']"
  "matchAll matchRequire importsReactTwice = [''react'']"
  by (simp_all add: importsReactTwice_def matchAll_def matchImport_def matchRequire_def
      matchQuotedSpecifier_def rx_eval)

lemma matchAll_importsReactAndClsx:
  "matchAll matchImport importsReactAndClsx = [''react'', ''clsx'']"
  "matchAll matchRequire importsReactAndClsx = []"
  by (simp_all add: importsReactAndClsx_def matchAll_def matchImport_def matchRequire_def
      matchQuotedSpecifier_def rx_eval)

lemma matchAll_requiresScopedAndBuiltin:
  "matchAll matchImport requiresScopedAndBuiltin = []"
  "matchAll matchRequire requiresScopedAndBuiltin = [''@radix-ui/react-slot'']"
  by (simp_all add: requiresScopedAndBuiltin_def matchAll_def matchImport_def matchRequire_def
      matchQuotedSpecifier_def rx_eval)

lemma keptSpecifier_examples:
  "keptSpecifier ''react''" "keptSpecifier ''clsx''" "keptSpecifier ''@radix-ui/react-slot''"
  by (simp_all add: keptSpecifier_def str_startsWith_def)

lemma extractDependencies_examples:
  "extractDependencies importsReactAndLocal = [''react'']"
  "extractDependencies importsLocalAndReact = [''react'']"
  "extractDependencies importsReactTwice = [''react'']"
  "extractDependencies importsReactAndClsx = [''react'', ''clsx'']"
  "extractDependencies requiresScopedAndBuiltin = [''@radix-ui/react-slot'']"
  by (simp_all add: extractDependencies_eq matchAll_importsReactAndLocal matchAll_requiresScopedAndBuiltin
      matchAll_importsLocalAndReact matchAll_importsReactTwice matchAll_importsReactAndClsx
      keptSpecifier_examples firstOccurrences_def)

lemma extractTags_example:
  "extractTags ''animation: spin 1s; transition: all'' = [''animation'', ''animated'']"
  by (simp add: extractTags_def addIf_def setAdd_def)

lemma jsdoc_documentedButton:
  "regexSearch (\<lambda>s. map (consumed s) (matchJsdoc s)) documentedButton =
     Some ''/**\<newline> * A fancy button\<newline> * @param props the props\<newline> */''"
  by (simp add: documentedButton_def matchJsdoc_def rx_eval)

lemma extractDescription_blank_comment:
  "extractDescription ''const a = 1; // \<newline>'' ''A'' = []"
  by (simp add: extractDescription_def matchJsdoc_def matchLineComment_def rx_eval trim_def)





subsection \<open>A crawl of the example remote\<close>

lemma gradientCardSource_extracted:
  "extractCategory ''GradientCard'' gradientCardSource = ''Cards''"
  "extractDescription gradientCardSource ''GradientCard'' = ''A card with a gradient''"
  "extractTags gradientCardSource = [''animation'', ''animated'', ''gradient'', ''tailwind'']"
  "extractDependencies gradientCardSource = [''react'', ''clsx'']"
proof -
  show "extractCategory ''GradientCard'' gradientCardSource = ''Cards''"
    by (simp add: extractCategory_loop categoryLoop_categoryMap toLowerCase_def)
  show "extractDescription gradientCardSource ''GradientCard'' = ''A card with a gradient''"
    by (simp add: gradientCardSource_def extractDescription_def matchJsdoc_def
        matchLineComment_def rx_eval trim_def)
  show "extractTags gradientCardSource = [''animation'', ''animated'', ''gradient'', ''tailwind'']"
    by (simp add: gradientCardSource_def extractTags_def addIf_def setAdd_def)
  have "matchAll matchImport gradientCardSource = [''react'', ''clsx'']"
    by (simp add: gradientCardSource_def matchAll_def matchImport_def matchQuotedSpecifier_def rx_eval)
  moreover have "matchAll matchRequire gradientCardSource = []"
    by (simp add: gradientCardSource_def matchAll_def matchRequire_def matchQuotedSpecifier_def rx_eval)
  ultimately show "extractDependencies gradientCardSource = [''react'', ''clsx'']"
    by (simp add: extractDependencies_eq keptSpecifier_examples firstOccurrences_def)
qed

lemma loadComponentsFromGitHub_exampleRemote:
  "loadComponentsFromGitHub exampleRemote =
     ([ListDirectory ''registry/new-york'', ListDirectory ''src/components'',
       Download ''https://raw.githubusercontent.com/Ashutoshx7/VengeanceUI/main/src/components/GradientCard.tsx''],
      [gradientCard])"
proof -
  have n: "extractComponentName ''GradientCard.tsx'' = ''GradientCard''"
    by (simp add: extractComponentName_def str_endsWith_eval)
  have s: "\<not> skippedFile ''GradientCard.tsx''"
    by (simp add: skippedFile_def isComponentFile_def str_endsWith_eval str_startsWith_def)
  show ?thesis
    by (simp add: loadComponentsFromGitHub_def searchPaths_def exampleRemote_def exampleItem_def
        fetchComponentMetadata_def gradientCardSource_extracted gradientCard_def n s)
qed

subsection \<open>Tag and dependency lists\<close>


subsection \<open>What the tools show of a record\<close>

lemma fetchComponentMetadata_stores:
  assumes "fetchComponentMetadata item (Some src) = (reqs, Inr (Some c))"
  shows "tags c = extractTags src \<and> dependencies c = Some (extractDependencies src)"
  using assms
  by (auto simp: fetchComponentMetadata_def Let_def split: option.splits if_splits)

lemma list_components_kept:
  "\<exists>kept. set kept \<subseteq> set cs \<and>
     list_components cs cat lim = (length kept, map formatComponentSummary kept)"
proof -
  let ?f = "case cat of None \<Rightarrow> cs
      | Some k \<Rightarrow> if k = [] then cs
                  else filter (\<lambda>c. toLowerCase (category c) = toLowerCase k) cs"
  let ?g = "case lim of None \<Rightarrow> ?f | Some l \<Rightarrow> if l = 0 then ?f else slice ?f 0 l"
  have f: "set ?f \<subseteq> set cs"
    by (auto split: option.splits)
  have "set (slice ?f 0 l) \<subseteq> set ?f" for l
    using slice0_prefix[of ?f l] by (rule set_mono_prefix)
  then have "set ?g \<subseteq> set ?f"
    by (cases lim) auto
  with f have "set ?g \<subseteq> set cs" by (rule subset_trans[rotated])
  moreover have "list_components cs cat lim = (length ?g, map formatComponentSummary ?g)"
    by (simp add: list_components_def Let_def)
  ultimately show ?thesis by blast
qed

lemma list_components_summaries:
  "\<forall>s \<in> set (snd (list_components cs cat lim)). \<exists>c \<in> set cs. s = formatComponentSummary c"
proof -
  obtain kept where "set kept \<subseteq> set cs"
    "list_components cs cat lim = (length kept, map formatComponentSummary kept)"
    using list_components_kept by blast
  then show ?thesis by auto
qed

lemma list_components_all:
  "snd (list_components cs None None) = map formatComponentSummary cs"
  by (simp add: list_components_def)

lemma get_component_code_found:
  assumes "trim raw \<noteq> []"
    and "find (\<lambda>c. toLowerCase (name c) = toLowerCase (trim raw)) cs = Some c"
    and "inc \<noteq> Some False"
  shows "get_component_code cs raw inc =
     ''# '' @ name c @ ''\<newline>\<newline>''
     @ ''**Description:** '' @ description c @ ''\<newline>\<newline>''
     @ ''**Category:** '' @ category c @ ''\<newline>\<newline>''
     @ ''**Tags:** ''
     @ (if joinWith '', '' (tags c) = [] then ''None'' else joinWith '', '' (tags c))
     @ ''\<newline>\<newline>''
     @ ''**Source:** '' @ sourceUrl c @ ''\<newline>\<newline>''
     @ (case dependencies c of
          None \<Rightarrow> []
        | Some ds \<Rightarrow>
            if ds = [] then []
            else ''**Dependencies:**\<newline>'' @ joinWith ''\<newline>'' (map (\<lambda>d. ''  - '' @ d) ds)
                 @ ''\<newline>\<newline>'')
     @ ''## Code:\<newline>\<newline>'' @ [CHR 0x60, CHR 0x60, CHR 0x60] @ ''tsx\<newline>''
     @ code c @ ''\<newline>'' @ [CHR 0x60, CHR 0x60, CHR 0x60]"
proof -
  from assms(3) have i: "(case inc of None \<Rightarrow> True | Some b \<Rightarrow> b) = True"
    by (cases inc) auto
  show ?thesis
    unfolding get_component_code_def Let_def i
    using assms(1,2) by (simp split: option.splits)
qed

lemma get_component_code_gradientCard:
  "get_component_code [gradientCard] '' gradientcard '' None =
     ''# GradientCard\<newline>\<newline>**Description:** A card with a gradient\<newline>\<newline>**Category:** Cards\<newline>\<newline>''
     @ ''**Tags:** animation, animated, gradient, tailwind\<newline>\<newline>''
     @ ''**Source:** '' @ sourceUrl gradientCard @ ''\<newline>\<newline>''
     @ ''**Dependencies:**\<newline>  - react\<newline>  - clsx\<newline>\<newline>''
     @ ''## Code:\<newline>\<newline>'' @ [CHR 0x60, CHR 0x60, CHR 0x60] @ ''tsx\<newline>''
     @ gradientCardSource @ ''\<newline>'' @ [CHR 0x60, CHR 0x60, CHR 0x60]"
proof -
  have t: "trim '' gradientcard '' = ''gradientcard''"
    by (simp add: str_eval)
  have f: "find (\<lambda>c. toLowerCase (name c) = toLowerCase (trim '' gradientcard '')) [gradientCard]
      = Some gradientCard"
    by (simp add: t gradientCard_def toLowerCase_def)
  have "get_component_code [gradientCard] '' gradientcard '' None = 
     ''# '' @ name gradientCard @ ''\<newline>\<newline>''
     @ ''**Description:** '' @ description gradientCard @ ''\<newline>\<newline>''
     @ ''**Category:** '' @ category gradientCard @ ''\<newline>\<newline>''
     @ ''**Tags:** ''
     @ (if joinWith '', '' (tags gradientCard) = [] then ''None'' else joinWith '', '' (tags gradientCard))
     @ ''\<newline>\<newline>''
     @ ''**Source:** '' @ sourceUrl gradientCard @ ''\<newline>\<newline>''
     @ (case dependencies gradientCard of
          None \<Rightarrow> []
        | Some ds \<Rightarrow>
            if ds = [] then []
            else ''**Dependencies:**\<newline>'' @ joinWith ''\<newline>'' (map (\<lambda>d. ''  - '' @ d) ds)
                 @ ''\<newline>\<newline>'')
     @ ''## Code:\<newline>\<newline>'' @ [CHR 0x60, CHR 0x60, CHR 0x60] @ ''tsx\<newline>''
     @ code gradientCard @ ''\<newline>'' @ [CHR 0x60, CHR 0x60, CHR 0x60]"
    by (rule get_component_code_found[OF _ f]) (simp_all add: t)
  then show ?thesis
    by (simp add: gradientCard_def)
qed

lemma fetchComponentMetadata_exampleItem:
  "fetchComponentMetadata exampleItem (Some gradientCardSource) =
     ([Download ''https://raw.githubusercontent.com/Ashutoshx7/VengeanceUI/main/src/components/GradientCard.tsx''],
      Inr (Some gradientCard))"
proof -
  have n: "extractComponentName ''GradientCard.tsx'' = ''GradientCard''"
    by (simp add: extractComponentName_def str_endsWith_eval)
  show ?thesis
    by (simp add: exampleItem_def fetchComponentMetadata_def gradientCardSource_extracted
        gradientCard_def n)
qed

lemma set_addDependencies:
  "set (addDependencies caps deps) = set deps \<union> {c \<in> set caps. keptSpecifier c}"
  by (induction caps arbitrary: deps)
    (auto simp: addDependencies_Cons set_setAdd simp del: addDependencies.simps(2))

lemma addDependencies_known:
  "\<forall>c \<in> set caps. keptSpecifier c \<longrightarrow> c \<in> set deps \<Longrightarrow> addDependencies caps deps = deps"
  by (induction caps arbitrary: deps)
    (auto simp: addDependencies_Cons setAdd_def simp del: addDependencies.simps(2))

lemma distinct_extractDependencies: "distinct (extractDependencies src)"
  by (simp add: extractDependencies_eq firstOccurrences_def)

lemma set_extractDependencies:
  "set (extractDependencies src) =
     {d \<in> set (matchAll matchImport src) \<union> set (matchAll matchRequire src). keptSpecifier d}"
  by (auto simp: extractDependencies_eq firstOccurrences_def)

text \<open>
  Claim C7, as stated, fails on the code. A content with an animation and a transition
  gets the tags \<open>animation\<close>, \<open>animated\<close> in this order, and a content that imports
  \<open>react\<close> and then \<open>clsx\<close> gets the dependencies \<open>react\<close>, \<open>clsx\<close>; neither list is
  sorted. The lists reach the replies of the tools as they are.
\<close>

theorem extracted_lists_sorted_counterexample:
  "extractTags ''animation: spin 1s; transition: all'' = [''animation'', ''animated'']
   \<and> \<not> sorted (extractTags ''animation: spin 1s; transition: all'')
   \<and> extractDependencies importsReactAndClsx = [''react'', ''clsx'']
   \<and> \<not> sorted (extractDependencies importsReactAndClsx)
   \<and> map summary_tags (snd (list_components (snd (loadComponentsFromGitHub exampleRemote)) None None)) =
       [[''animation'', ''animated'', ''gradient'', ''tailwind'']]
   \<and> map dependencies (snd (loadComponentsFromGitHub exampleRemote)) = [Some [''react'', ''clsx'']]"
  by (simp add: extractTags_example extractDependencies_examples
      loadComponentsFromGitHub_exampleRemote list_components_def formatComponentSummary_def
      gradientCard_def)

text \<open>
  Claim C7, amended. For every content the tag list and the dependency list have no
  duplicates and a fixed order, which is not the sorted one: the tags come in the order in
  which \<^verbatim>\<open>extractTags\<close> tests its predicates (\<open>tagPredicates\<close>), and the dependencies
  in the order of their first capture, those of the import declarations before those of
  the \<^verbatim>\<open>require\<close> calls. The crawl stores both lists in the record as they were
  extracted. \<^verbatim>\<open>list_components\<close> copies the tag list of a record into its summary
  unchanged, and \<^verbatim>\<open>get_component_code\<close> prints the tags, joined by a comma and a blank,
  and the dependencies, one on a line, in the order of the record.
\<close>

theorem extracted_lists_in_source_order:
  "distinct (extractTags src)
   \<and> extractTags src =
       map snd (filter (\<lambda>(markers, tag). \<exists>m \<in> set markers. str_includes src m) tagPredicates)
   \<and> subseq (extractTags src)
       [''animation'', ''animated'', ''interactive'', ''gradient'', ''tailwind'',
        ''styled-components'', ''layout'', ''responsive'', ''hooks'', ''composable'', ''compound'']
   \<and> distinct (extractDependencies src)
   \<and> extractDependencies src =
       firstOccurrences
         (filter keptSpecifier (matchAll matchImport src @ matchAll matchRequire src))
   \<and> (fetchComponentMetadata item (Some src) = (reqs, Inr (Some stored)) \<longrightarrow>
        tags stored = extractTags src \<and> dependencies stored = Some (extractDependencies src))
   \<and> summary_tags (formatComponentSummary c) = tags c
   \<and> map summary_tags (snd (list_components cs None None)) = map tags cs
   \<and> (\<forall>s \<in> set (snd (list_components cs cat lim)).
         \<exists>c \<in> set cs. s = formatComponentSummary c \<and> summary_tags s = tags c)
   \<and> (trim raw \<noteq> [] \<and>
       find (\<lambda>c. toLowerCase (name c) = toLowerCase (trim raw)) cs = Some found \<and>
       inc \<noteq> Some False \<longrightarrow>
        get_component_code cs raw inc =
          ''# '' @ name found @ ''\<newline>\<newline>''
          @ ''**Description:** '' @ description found @ ''\<newline>\<newline>''
          @ ''**Category:** '' @ category found @ ''\<newline>\<newline>''
          @ ''**Tags:** ''
          @ (if joinWith '', '' (tags found) = [] then ''None'' else joinWith '', '' (tags found))
          @ ''\<newline>\<newline>''
          @ ''**Source:** '' @ sourceUrl found @ ''\<newline>\<newline>''
          @ (case dependencies found of
               None \<Rightarrow> []
             | Some ds \<Rightarrow>
                 if ds = [] then []
                 else ''**Dependencies:**\<newline>'' @ joinWith ''\<newline>'' (map (\<lambda>d. ''  - '' @ d) ds)
                      @ ''\<newline>\<newline>'')
          @ ''## Code:\<newline>\<newline>'' @ [CHR 0x60, CHR 0x60, CHR 0x60] @ ''tsx\<newline>''
          @ code found @ ''\<newline>'' @ [CHR 0x60, CHR 0x60, CHR 0x60])"
proof (intro conjI impI)
  let ?hit = "\<lambda>(markers, tag). \<exists>m \<in> set markers. str_includes src m"
  have d: "distinct (map snd tagPredicates)"
    by (simp add: tagPredicates_def)
  show "extractTags src = map snd (filter ?hit tagPredicates)"
    by (rule extractTags_table)
  show "distinct (extractTags src)"
    unfolding extractTags_table using d by (rule distinct_map_filter)
  have "subseq (map snd (filter ?hit tagPredicates)) (map snd tagPredicates)"
    by (intro subseq_map subseq_filter_left)
  moreover have "map snd tagPredicates =
       [''animation'', ''animated'', ''interactive'', ''gradient'', ''tailwind'',
        ''styled-components'', ''layout'', ''responsive'', ''hooks'', ''composable'', ''compound'']"
    by (simp add: tagPredicates_def)
  ultimately show "subseq (extractTags src)
       [''animation'', ''animated'', ''interactive'', ''gradient'', ''tailwind'',
        ''styled-components'', ''layout'', ''responsive'', ''hooks'', ''composable'', ''compound'']"
    by (simp only: extractTags_table)
  show "distinct (extractDependencies src)"
    by (rule distinct_extractDependencies)
  show "extractDependencies src =
       firstOccurrences
         (filter keptSpecifier (matchAll matchImport src @ matchAll matchRequire src))"
    by (rule extractDependencies_eq)
  show "tags stored = extractTags src"
    if "fetchComponentMetadata item (Some src) = (reqs, Inr (Some stored))"
    using fetchComponentMetadata_stores[OF that] by (rule conjunct1)
  show "dependencies stored = Some (extractDependencies src)"
    if "fetchComponentMetadata item (Some src) = (reqs, Inr (Some stored))"
    using fetchComponentMetadata_stores[OF that] by (rule conjunct2)
  show t: "summary_tags (formatComponentSummary c) = tags c" for c
    by (simp add: formatComponentSummary_def)
  show "map summary_tags (snd (list_components cs None None)) = map tags cs"
    by (simp add: list_components_all t comp_def)
  show "\<forall>s \<in> set (snd (list_components cs cat lim)).
         \<exists>c \<in> set cs. s = formatComponentSummary c \<and> summary_tags s = tags c"
    using list_components_summaries[of cs cat lim] t by fastforce
  show "get_component_code cs raw inc =
          ''# '' @ name found @ ''\<newline>\<newline>''
          @ ''**Description:** '' @ description found @ ''\<newline>\<newline>''
          @ ''**Category:** '' @ category found @ ''\<newline>\<newline>''
          @ ''**Tags:** ''
          @ (if joinWith '', '' (tags found) = [] then ''None'' else joinWith '', '' (tags found))
          @ ''\<newline>\<newline>''
          @ ''**Source:** '' @ sourceUrl found @ ''\<newline>\<newline>''
          @ (case dependencies found of
               None \<Rightarrow> []
             | Some ds \<Rightarrow>
                 if ds = [] then []
                 else ''**Dependencies:**\<newline>'' @ joinWith ''\<newline>'' (map (\<lambda>d. ''  - '' @ d) ds)
                      @ ''\<newline>\<newline>'')
          @ ''## Code:\<newline>\<newline>'' @ [CHR 0x60, CHR 0x60, CHR 0x60] @ ''tsx\<newline>''
          @ code found @ ''\<newline>'' @ [CHR 0x60, CHR 0x60, CHR 0x60]"
    if "trim raw \<noteq> [] \<and>
       find (\<lambda>c. toLowerCase (name c) = toLowerCase (trim raw)) cs = Some found \<and>
       inc \<noteq> Some False"
    using that by (intro get_component_code_found) simp_all
qed

theorem extracted_lists_in_source_order_witness:
  "distinct (extractTags gradientCardSource)
   \<and> extractTags gradientCardSource = [''animation'', ''animated'', ''gradient'', ''tailwind'']
   \<and> extractDependencies gradientCardSource = [''react'', ''clsx'']
   \<and> fetchComponentMetadata exampleItem (Some gradientCardSource) =
       ([Download ''https://raw.githubusercontent.com/Ashutoshx7/VengeanceUI/main/src/components/GradientCard.tsx''],
        Inr (Some gradientCard))
   \<and> tags gradientCard = extractTags gradientCardSource
   \<and> dependencies gradientCard = Some (extractDependencies gradientCardSource)
   \<and> map summary_tags (snd (list_components [exampleButton, gradientCard] (Some ''cards'') (Some 5))) =
       [[''animation'', ''animated'', ''gradient'', ''tailwind'']]
   \<and> trim '' gradientcard '' \<noteq> []
   \<and> find (\<lambda>c. toLowerCase (name c) = toLowerCase (trim '' gradientcard '')) [gradientCard]
       = Some gradientCard
   \<and> get_component_code [gradientCard] '' gradientcard '' None =
     ''# GradientCard\<newline>\<newline>**Description:** A card with a gradient\<newline>\<newline>**Category:** Cards\<newline>\<newline>''
     @ ''**Tags:** animation, animated, gradient, tailwind\<newline>\<newline>''
     @ ''**Source:** '' @ sourceUrl gradientCard @ ''\<newline>\<newline>''
     @ ''**Dependencies:**\<newline>  - react\<newline>  - clsx\<newline>\<newline>''
     @ ''## Code:\<newline>\<newline>'' @ [CHR 0x60, CHR 0x60, CHR 0x60] @ ''tsx\<newline>''
     @ gradientCardSource @ ''\<newline>'' @ [CHR 0x60, CHR 0x60, CHR 0x60]"
proof -
  note i = extracted_lists_in_source_order
    [of gradientCardSource exampleItem
        "[Download ''https://raw.githubusercontent.com/Ashutoshx7/VengeanceUI/main/src/components/GradientCard.tsx'']"
        gradientCard gradientCard "[gradientCard]" None None "'' gradientcard ''" gradientCard None]
  from i have a: "distinct (extractTags gradientCardSource)"
    by (elim conjE)
  note f = fetchComponentMetadata_exampleItem
  from i have "fetchComponentMetadata exampleItem (Some gradientCardSource) =
       ([Download ''https://raw.githubusercontent.com/Ashutoshx7/VengeanceUI/main/src/components/GradientCard.tsx''],
        Inr (Some gradientCard)) \<longrightarrow>
        tags gradientCard = extractTags gradientCardSource \<and>
        dependencies gradientCard = Some (extractDependencies gradientCardSource)"
    by (elim conjE)
  from this f have s: "tags gradientCard = extractTags gradientCardSource \<and>
        dependencies gradientCard = Some (extractDependencies gradientCardSource)"
    by (rule mp)
  have t: "trim '' gradientcard '' \<noteq> []"
    by (simp add: str_eval)
  have fd: "find (\<lambda>c. toLowerCase (name c) = toLowerCase (trim '' gradientcard '')) [gradientCard]
       = Some gradientCard"
    by (simp add: str_eval gradientCard_def)
  have l: "map summary_tags (snd (list_components [exampleButton, gradientCard] (Some ''cards'') (Some 5))) =
       [[''animation'', ''animated'', ''gradient'', ''tailwind'']]"
    by (simp add: list_components_def slice_def formatComponentSummary_def exampleButton_def
        gradientCard_def toLowerCase_def)
  from a s f t fd l show ?thesis
    by (simp add: gradientCardSource_extracted get_component_code_gradientCard)
qed

text \<open>
  What holds of dependency extraction on every content: the result has no duplicates; its
  elements are the specifiers captured by the import pattern and the require pattern that
  start neither with a dot nor with \<open>node:\<close>; adding captured specifiers a second time
  changes nothing, and neither their order nor their repetition changes the set.
\<close>

lemma extractDependencies_set_semantics:
  "distinct (extractDependencies src)
   \<and> set (extractDependencies src) =
       {d \<in> set (matchAll matchImport src) \<union> set (matchAll matchRequire src).
          \<not> str_startsWith d ''.'' \<and> \<not> str_startsWith d ''node:''}
   \<and> addDependencies caps (addDependencies caps deps) = addDependencies caps deps
   \<and> (set caps = set caps' \<longrightarrow>
         set (addDependencies caps deps) = set (addDependencies caps' deps))"
proof (intro conjI impI)
  show "distinct (extractDependencies src)"
    by (rule distinct_extractDependencies)
  show "set (extractDependencies src) =
       {d \<in> set (matchAll matchImport src) \<union> set (matchAll matchRequire src).
          \<not> str_startsWith d ''.'' \<and> \<not> str_startsWith d ''node:''}"
    by (simp add: set_extractDependencies keptSpecifier_def)
  show "addDependencies caps (addDependencies caps deps) = addDependencies caps deps"
    by (rule addDependencies_known) (simp add: set_addDependencies)
  show "set (addDependencies caps deps) = set (addDependencies caps' deps)"
    if "set caps = set caps'"
    using that by (simp add: set_addDependencies)
qed

lemma extractDependencies_missed:
  "extractDependencies multilineReactAndLocal = []"
  "extractDependencies importsDottedPackage = []"
  "extractDependencies importsForSideEffect = []"
  "extractDependencies importsNodeBuiltins = [''fs'', ''path'']"
  by (simp_all add: multilineReactAndLocal_def importsDottedPackage_def importsForSideEffect_def
      importsNodeBuiltins_def dep_eval)

text \<open>
  Claim C8 holds of the specification and not of the code. A content that imports
  \<open>react\<close> with its bindings on several lines, and \<open>./local-util\<close>, has no dependency
  at all, where the claim says \<open>react\<close>: the pattern for imports lets no line break
  stand between \<^verbatim>\<open>import\<close> and \<^verbatim>\<open>from\<close> but next to them. The import of a package
  with a dot in its name and an import for its side effect alone are not captured either,
  and the builtin modules \<open>fs\<close> and \<open>path\<close>, named without the prefix \<open>node:\<close>,
  are kept as dependencies.
  On contents whose imports stand on one line each, with specifiers of letters, digits,
  \<open>_\<close>, \<open>/\<close> and \<open>-\<close>, the result is as claimed.
\<close>

theorem extractDependencies_misses_declarations:
  "extractDependencies multilineReactAndLocal = []
   \<and> extractDependencies importsDottedPackage = []
   \<and> extractDependencies importsForSideEffect = []
   \<and> extractDependencies importsNodeBuiltins = [''fs'', ''path'']
   \<and> extractDependencies importsReactAndLocal = [''react'']
   \<and> extractDependencies importsLocalAndReact = [''react'']
   \<and> extractDependencies importsReactTwice = [''react'']
   \<and> extractDependencies requiresScopedAndBuiltin = [''@radix-ui/react-slot'']"
  by (simp add: extractDependencies_missed extractDependencies_examples)

text \<open>
  Claim C9 holds of the specification and not of the code. Whenever the content has a
  documentation comment block, the description is the single character \<open>*\<close>: the
  pattern for the text line finds the second star of the opening \<^verbatim>\<open>/**\<close> first, and the
  group ends at the line break that must follow. For a content whose first line comment
  holds only a blank, the description is the empty string.
\<close>

theorem extractDescription_of_jsdoc_is_star:
  "(regexSearch (\<lambda>s. map (consumed s) (matchJsdoc s)) src = Some comment \<longrightarrow>
      extractDescription src componentName = ''*'')
   \<and> extractDescription documentedButton ''FancyButton'' = ''*''
   \<and> extractDescription ''const a = 1; // \<newline>'' ''A'' = []"
proof (intro conjI impI)
  show "extractDescription src componentName = ''*''"
    if "regexSearch (\<lambda>s. map (consumed s) (matchJsdoc s)) src = Some comment"
    using that by (rule extractDescription_jsdoc)
  show "extractDescription documentedButton ''FancyButton'' = ''*''"
    using jsdoc_documentedButton by (rule extractDescription_jsdoc)
  show "extractDescription ''const a = 1; // \<newline>'' ''A'' = []"
    by (rule extractDescription_blank_comment)
qed

theorem extractDescription_of_jsdoc_is_star_witness:
  "regexSearch (\<lambda>s. map (consumed s) (matchJsdoc s)) documentedButton =
     Some ''/**\<newline> * A fancy button\<newline> * @param props the props\<newline> */''
   \<and> extractDescription documentedButton ''Anything'' = ''*''"
  using extractDescription_of_jsdoc_is_star
    [of documentedButton "''/**\<newline> * A fancy button\<newline> * @param props the props\<newline> */''" "''Anything''"]
    jsdoc_documentedButton
  by blast




section \<open>The crawler and the cache\<close>

lemma fetchComponentsFromDirectory_requests:
  "\<exists>reqs. fst (fetchComponentsFromDirectory p x) = ListDirectory p # reqs"
  by (cases x) (auto split: prod.splits)

lemma searchPathsLoop_requests:
  "p \<in> set ps \<Longrightarrow> ListDirectory p \<in> set (fst (searchPathsLoop remote ps))"
proof (induction ps)
  case Nil
  then show ?case by simp
next
  case (Cons q ps)
  obtain reqs where r: "fst (fetchComponentsFromDirectory q (remote q)) = ListDirectory q # reqs"
    using fetchComponentsFromDirectory_requests by blast
  show ?case
  proof (cases "p = q")
    case True
    with r show ?thesis by (auto split: prod.splits)
  next
    case False
    with Cons show ?thesis by (auto split: prod.splits)
  qed
qed

lemma loadComponentsFromGitHub_requests:
  "p \<in> set searchPaths \<Longrightarrow> ListDirectory p \<in> set (fst (loadComponentsFromGitHub remote))"
  using searchPathsLoop_requests[of p searchPaths remote]
  by (auto simp: loadComponentsFromGitHub_def Let_def split: prod.splits sum.splits)

lemma loadComponents_hit:
  assumes "\<not> forceRefresh" and "componentsCache st \<noteq> []"
    and "now - lastCacheUpdate st < CACHE_DURATION"
  shows "loadComponents forceRefresh now remote st = (st, [], componentsCache st)"
  using assms by (simp add: loadComponents_def)

lemma loadComponents_refresh:
  assumes "forceRefresh \<or> componentsCache st = [] \<or> CACHE_DURATION \<le> now - lastCacheUpdate st"
  shows "loadComponents forceRefresh now remote st =
           (st\<lparr> componentsCache := snd (loadComponentsFromGitHub remote), lastCacheUpdate := now \<rparr>,
            fst (loadComponentsFromGitHub remote),
            snd (loadComponentsFromGitHub remote))"
  using assms by (auto simp: loadComponents_def Let_def split: prod.splits)

lemma loadComponentsFromGitHub_unreachable:
  assumes "remote ''registry/new-york'' = None" and "remote ''src/components'' = None"
    and "remote [] = None"
  shows "loadComponentsFromGitHub remote =
           ([ListDirectory ''registry/new-york'', ListDirectory ''src/components'', ListDirectory []], [])"
  using assms by (simp add: loadComponentsFromGitHub_def searchPaths_def)

text \<open>
  Claim C4. A call \<open>loadComponents false\<close> made while the cached list is not empty and
  less than 5 minutes (300000 ms) have passed since the last refresh returns the cached
  list, sends no request and leaves the cache and its timestamp as they are; so two such
  calls see the same timestamp. A call \<open>loadComponents true\<close> always crawls: it lists both
  search paths, whatever the age of the cache, and stores the crawl's result with the time
  of the call.
\<close>

theorem cache_ttl_policy:
  "CACHE_DURATION = 300000
   \<and> (componentsCache st \<noteq> [] \<and> now - lastCacheUpdate st < 300000 \<longrightarrow>
        loadComponents False now remote st = (st, [], componentsCache st))
   \<and> (componentsCache st \<noteq> [] \<and> now - lastCacheUpdate st < 300000 \<and>
        now' - lastCacheUpdate st < 300000 \<longrightarrow>
        (let (st1, reqs1, cs1) = loadComponents False now remote st;
             (st2, reqs2, cs2) = loadComponents False now' remote' st1
         in lastCacheUpdate st2 = lastCacheUpdate st1 \<and> st2 = st \<and> reqs1 = [] \<and> reqs2 = [] \<and>
            cs1 = componentsCache st \<and> cs2 = componentsCache st))
   \<and> loadComponents True now remote st =
        (st\<lparr> componentsCache := snd (loadComponentsFromGitHub remote), lastCacheUpdate := now \<rparr>,
         fst (loadComponentsFromGitHub remote),
         snd (loadComponentsFromGitHub remote))
   \<and> ListDirectory ''registry/new-york'' \<in> set (fst (snd (loadComponents True now remote st)))
   \<and> ListDirectory ''src/components'' \<in> set (fst (snd (loadComponents True now remote st)))"
proof (intro conjI impI)
  show d: "CACHE_DURATION = 300000"
    by (simp add: CACHE_DURATION_def)
  show "loadComponents False now remote st = (st, [], componentsCache st)"
    if "componentsCache st \<noteq> [] \<and> now - lastCacheUpdate st < 300000"
    using that by (simp add: loadComponents_hit d)
  show "let (st1, reqs1, cs1) = loadComponents False now remote st;
            (st2, reqs2, cs2) = loadComponents False now' remote' st1
        in lastCacheUpdate st2 = lastCacheUpdate st1 \<and> st2 = st \<and> reqs1 = [] \<and> reqs2 = [] \<and>
           cs1 = componentsCache st \<and> cs2 = componentsCache st"
    if "componentsCache st \<noteq> [] \<and> now - lastCacheUpdate st < 300000 \<and>
        now' - lastCacheUpdate st < 300000"
    using that by (simp add: loadComponents_hit d)
  show r: "loadComponents True now remote st =
        (st\<lparr> componentsCache := snd (loadComponentsFromGitHub remote), lastCacheUpdate := now \<rparr>,
         fst (loadComponentsFromGitHub remote),
         snd (loadComponentsFromGitHub remote))"
    by (simp add: loadComponents_refresh)
  show "ListDirectory ''registry/new-york'' \<in> set (fst (snd (loadComponents True now remote st)))"
    by (simp add: r loadComponentsFromGitHub_requests searchPaths_def)
  show "ListDirectory ''src/components'' \<in> set (fst (snd (loadComponents True now remote st)))"
    by (simp add: r loadComponentsFromGitHub_requests searchPaths_def)
qed

theorem cache_ttl_policy_witness:
  "loadComponents False 1000 exampleRemote initialCache =
     (\<lparr> componentsCache = [gradientCard], lastCacheUpdate = 1000 \<rparr>,
      [ListDirectory ''registry/new-york'', ListDirectory ''src/components'',
       Download ''https://raw.githubusercontent.com/Ashutoshx7/VengeanceUI/main/src/components/GradientCard.tsx''],
      [gradientCard])
   \<and> componentsCache \<lparr> componentsCache = [gradientCard], lastCacheUpdate = 1000 \<rparr> \<noteq> []
   \<and> 200000 - lastCacheUpdate \<lparr> componentsCache = [gradientCard], lastCacheUpdate = 1000 \<rparr> < 300000
   \<and> 300999 - lastCacheUpdate \<lparr> componentsCache = [gradientCard], lastCacheUpdate = 1000 \<rparr> < 300000
   \<and> loadComponents False 200000 unreachableRemote
        \<lparr> componentsCache = [gradientCard], lastCacheUpdate = 1000 \<rparr> =
        (\<lparr> componentsCache = [gradientCard], lastCacheUpdate = 1000 \<rparr>, [], [gradientCard])
   \<and> (let (st1, reqs1, cs1) = loadComponents False 200000 unreachableRemote
                                 \<lparr> componentsCache = [gradientCard], lastCacheUpdate = 1000 \<rparr>;
            (st2, reqs2, cs2) = loadComponents False 300999 unreachableRemote st1
        in lastCacheUpdate st2 = 1000 \<and> lastCacheUpdate st1 = 1000 \<and> reqs1 = [] \<and> reqs2 = [] \<and>
           cs1 = [gradientCard] \<and> cs2 = [gradientCard])
   \<and> loadComponents True 200000 unreachableRemote
        \<lparr> componentsCache = [gradientCard], lastCacheUpdate = 1000 \<rparr> =
        (\<lparr> componentsCache = [], lastCacheUpdate = 200000 \<rparr>,
         [ListDirectory ''registry/new-york'', ListDirectory ''src/components'', ListDirectory []],
         [])
   \<and> ListDirectory ''src/components''
        \<in> set (fst (snd (loadComponents True 200000 unreachableRemote
                           \<lparr> componentsCache = [gradientCard], lastCacheUpdate = 1000 \<rparr>)))"
proof -
  let ?st = "\<lparr> componentsCache = [gradientCard], lastCacheUpdate = 1000 \<rparr>"
  note i = cache_ttl_policy[of ?st 200000 unreachableRemote 300999 unreachableRemote]
  note i' = cache_ttl_policy[of ?st 300999 unreachableRemote 300999 unreachableRemote]
  have first: "loadComponents False 1000 exampleRemote initialCache =
     (?st,
      [ListDirectory ''registry/new-york'', ListDirectory ''src/components'',
       Download ''https://raw.githubusercontent.com/Ashutoshx7/VengeanceUI/main/src/components/GradientCard.tsx''],
      [gradientCard])"
    by (simp add: loadComponents_def initialCache_def loadComponentsFromGitHub_exampleRemote)
  have u: "loadComponentsFromGitHub unreachableRemote =
      ([ListDirectory ''registry/new-york'', ListDirectory ''src/components'', ListDirectory []], [])"
    by (simp add: loadComponentsFromGitHub_unreachable unreachableRemote_def)
  show ?thesis
    using i i' first by (simp add: u)
qed





end
